theory Spec2Isabelle
  imports Complex_Main "HOL-Library.Word" "HOL-Library.Monad_Syntax"
begin

unbundle bit_operations_syntax

section \<open>Regional push connectors: the shared reconnect backoff\<close>

text \<open>
  \<^verbatim>\<open>connectWolfx\<close> (WebSocketProvider) opens three sockets, JMA, SC and FJ. The three
  \<^verbatim>\<open>onopen\<close> and the three \<^verbatim>\<open>onclose\<close> handlers are the same code up to the connected flag
  they set, and all of them read and write the one ref \<^verbatim>\<open>wolfxBackoffMsRef\<close>, which
  starts at 5000. Times are milliseconds. \<^verbatim>\<open>isWolfxDisabled()\<close> reads the environment
  and local storage; its value at the time of the close is the argument \<open>disabled\<close>.
\<close>

datatype connector = JMA | SC | FJ

record wolfx =
  backoffMs :: nat
  jmaConnected :: bool
  scConnected :: bool
  fjConnected :: bool

definition initWolfx :: wolfx where
  "initWolfx = \<lparr>backoffMs = 5000, jmaConnected = False, scConnected = False, fjConnected = False\<rparr>"

fun setConnected :: "connector \<Rightarrow> bool \<Rightarrow> wolfx \<Rightarrow> wolfx" where
  "setConnected JMA b s = s\<lparr>jmaConnected := b\<rparr>"
| "setConnected SC b s = s\<lparr>scConnected := b\<rparr>"
| "setConnected FJ b s = s\<lparr>fjConnected := b\<rparr>"

definition onopen :: "connector \<Rightarrow> wolfx \<Rightarrow> wolfx" where
  "onopen c s = (setConnected c True s)\<lparr>backoffMs := 5000\<rparr>"

text \<open>
  \<^verbatim>\<open>onclose\<close> returns the new state and the delay of the reconnect timer it sets;
  \<open>None\<close> when \<^verbatim>\<open>delay > 0\<close> fails and no timer is set.
\<close>

definition onclose :: "bool \<Rightarrow> connector \<Rightarrow> wolfx \<Rightarrow> wolfx \<times> nat option" where
  "onclose disabled c s =
     (let delay = (if disabled then 0 else min 60000 (backoffMs s * 2))
      in ((setConnected c False s)\<lparr>backoffMs := delay\<rparr>,
          if delay > 0 then Some delay else None))"

text \<open>
  A run of consecutive closes with no open in between: each element names the socket
  that closed and whether the feeds were disabled at that moment. The result lists what
  each close scheduled.
\<close>

fun closes :: "(connector \<times> bool) list \<Rightarrow> wolfx \<Rightarrow> nat option list" where
  "closes [] s = []"
| "closes ((c, disabled) # es) s =
     (case onclose disabled c s of (s', d) \<Rightarrow> d # closes es s')"

section \<open>Leader lock over local storage\<close>

text \<open>
  The lock is the local-storage item \<^verbatim>\<open>wolfx_lock\<close>, shared by every tab of the origin.
  \<open>None\<close> is a missing or empty item (\<^verbatim>\<open>raw\<close> is null or the empty string, both falsy). An
  item is either the JSON of
  a record \<^verbatim>\<open>{id, ts}\<close>, which is all this code ever writes, or text that \<^verbatim>\<open>JSON.parse\<close>
  rejects. Each tab keeps its own \<^verbatim>\<open>wolfxLockIdRef\<close>; a ref holding the empty string is
  falsy, like null. \<^verbatim>\<open>Date.now()\<close> and the string drawn from \<^verbatim>\<open>Math.random()\<close> are
  arguments.
\<close>

record lock_record =
  lock_id :: string
  ts :: int

datatype lock_item = Unparsable | LockJson lock_record

definition truthyId :: "string option \<Rightarrow> bool" where
  "truthyId r = (case r of None \<Rightarrow> False | Some i \<Rightarrow> i \<noteq> [])"

text \<open>
  \<^verbatim>\<open>acquireWolfxLock\<close> returns its boolean, the tab's id ref and the storage item
  afterwards. The exception of \<^verbatim>\<open>JSON.parse\<close> is swallowed by \<^verbatim>\<open>catch {}\<close> and the
  function falls through to \<^verbatim>\<open>return true\<close>, with the id ref already assigned. A
  \<^verbatim>\<open>getItem\<close> that throws takes the same way; a \<^verbatim>\<open>setItem\<close> that throws is not modelled.
\<close>

definition acquireWolfxLock ::
  "int \<Rightarrow> string \<Rightarrow> string option \<Rightarrow> lock_item option \<Rightarrow> bool \<times> string option \<times> lock_item option" where
  "acquireWolfxLock now fresh idRef item =
     (let myId = (if truthyId idRef then the idRef else fresh)
      in case item of
           None \<Rightarrow> (True, Some myId, Some (LockJson \<lparr>lock_id = myId, ts = now\<rparr>))
         | Some Unparsable \<Rightarrow> (True, Some myId, item)
         | Some (LockJson parsed) \<Rightarrow>
             if now - ts parsed > 10000
             then (True, Some myId, Some (LockJson \<lparr>lock_id = myId, ts = now\<rparr>))
             else (lock_id parsed = myId, Some myId, item))"

text \<open>\<^verbatim>\<open>refreshWolfxLock\<close>, run every 3000 ms by \<^verbatim>\<open>setInterval\<close>; it returns the item.\<close>

definition refreshWolfxLock :: "int \<Rightarrow> string option \<Rightarrow> lock_item option \<Rightarrow> lock_item option" where
  "refreshWolfxLock now idRef item =
     (if \<not> truthyId idRef then item
      else Some (LockJson \<lparr>lock_id = the idRef, ts = now\<rparr>))"

text \<open>The \<^verbatim>\<open>beforeunload\<close> handler, which releases the lock.\<close>

definition beforeUnload :: "string option \<Rightarrow> lock_item option \<Rightarrow> lock_item option" where
  "beforeUnload idRef item =
     (case item of
        Some (LockJson parsed) \<Rightarrow> if Some (lock_id parsed) = idRef then None else item
      | _ \<Rightarrow> item)"

section \<open>Event store: P2PQuake messages\<close>

text \<open>
  A P2PQuake message is a JSON object discriminated by its \<^verbatim>\<open>code\<close>: 551 an earthquake
  report, 556 an early warning, 552 a tsunami message. The constructor carries the code,
  so \<^verbatim>\<open>item.code === 551\<close> holds of every \<open>EarthquakeData\<close> and \<^verbatim>\<open>td.code === 552\<close> of
  every \<open>TsunamiData\<close>. Only the fields the handlers read or write are kept. The flag
  \<open>syntheticFromTsunami\<close> is the property the handler adds to its placeholder; it is
  absent, so falsy, on every received report.
\<close>

record area =
  area_name :: string
  grade :: string

record TsunamiData =
  tsu_time :: string
  cancelled :: bool
  areas :: "area list"

record point =
  addr :: string
  scale :: int

record EarthquakeData =
  eq_time :: string
  maxScale :: int
  domesticTsunami :: string
  hypo_name :: string
  hypo_latitude :: rat
  hypo_longitude :: rat
  hypo_depth :: rat
  hypo_magnitude :: rat
  freeFormComment :: string
  points :: "point list"
  syntheticFromTsunami :: bool

typedecl EEWData

datatype P2PQuakeData =
  Earthquake EarthquakeData | EEW EEWData | Tsunami TsunamiData | OtherCode int | NotAnObject

fun code :: "P2PQuakeData \<Rightarrow> int option" where
  "code (Earthquake _) = Some 551"
| "code (EEW _) = Some 556"
| "code (Tsunami _) = Some 552"
| "code (OtherCode c) = Some c"
| "code NotAnObject = None"

text \<open>
  What the handlers take from the JavaScript runtime: the clock, the time zone,
  \<^verbatim>\<open>new Date(string).getTime()\<close> (\<open>None\<close> for an invalid date, whose comparisons are all
  false) and \<^verbatim>\<open>toISOString\<close>. The time zone is the two conversions of the language
  definition, \<^verbatim>\<open>LocalTime\<close> from a UTC time value to a local one and \<^verbatim>\<open>UTC\<close> back, any
  functions at all: the offset may change with the instant, as it does under daylight
  saving time.
\<close>

record runtime =
  now :: int
  localTime :: "int \<Rightarrow> int"
  utc :: "int \<Rightarrow> int"
  parseDate :: "string \<Rightarrow> int option"
  toISOString :: "int \<Rightarrow> string"

definition dayMs :: int where
  "dayMs = 86400000"

text \<open>
  \<^verbatim>\<open>d = new Date(); d.setDate(d.getDate() - 2); d.setHours(0, 0, 0, 0)\<close>. Each setter takes
  the local time value of the date, changes it and converts the result back to UTC:
  \<^verbatim>\<open>setDate\<close> moves the local value two days back, keeping the time within the day;
  \<^verbatim>\<open>setHours\<close> sets the time within the day to zero.
\<close>

definition twoDaysAgo :: "runtime \<Rightarrow> int" where
  "twoDaysAgo rt =
     (let d1 = utc rt (localTime rt (now rt) - 2 * dayMs);
          l1 = localTime rt d1
      in utc rt (l1 - l1 mod dayMs))"

definition inWindow :: "runtime \<Rightarrow> EarthquakeData \<Rightarrow> bool" where
  "inWindow rt item =
     (case parseDate rt (eq_time item) of None \<Rightarrow> False | Some t \<Rightarrow> t \<ge> twoDaysAgo rt)"

record store =
  earthquakeData :: "EarthquakeData list"
  eewData :: "EEWData option"
  tsunamiData :: "TsunamiData option"
  lastPlayedSoundTime :: "string option"

text \<open>The strings of the source that are not ASCII, as their UTF-8 bytes.\<close>

definition coastalWaters :: string where
  "coastalWaters = [CHR 0xE6, CHR 0xB2, CHR 0xBF, CHR 0xE5, CHR 0xB2, CHR 0xB8, CHR 0xE6, CHR 0xB5,
      CHR 0xB7, CHR 0xE5, CHR 0x9F, CHR 0x9F]"

definition syntheticComment :: string where
  "syntheticComment = [CHR 0xE6, CHR 0xB4, CHR 0xA5, CHR 0xE6, CHR 0xB3, CHR 0xA2, CHR 0xE6, CHR 0x83,
      CHR 0x85, CHR 0xE5, CHR 0xA0, CHR 0xB1, CHR 0xE3, CHR 0x81, CHR 0xAB, CHR 0xE5,
      CHR 0x9F, CHR 0xBA, CHR 0xE3, CHR 0x81, CHR 0xA5, CHR 0xE3, CHR 0x81, CHR 0x8F,
      CHR 0xE3, CHR 0x83, CHR 0x86, CHR 0xE3, CHR 0x82, CHR 0xB9, CHR 0xE3, CHR 0x83,
      CHR 0x88, CHR 0xE7, CHR 0x94, CHR 0xA8, CHR 0xE3, CHR 0x81, CHR 0xAE, CHR 0xE4,
      CHR 0xBB, CHR 0xAE, CHR 0xE6, CHR 0x83, CHR 0xB3, CHR 0xE5, CHR 0x9C, CHR 0xB0,
      CHR 0xE9, CHR 0x9C, CHR 0x87, CHR 0xE3, CHR 0x81, CHR 0xA7, CHR 0xE3, CHR 0x81,
      CHR 0x99, CHR 0xE3, CHR 0x80, CHR 0x82]"

definition firstName :: "area list \<Rightarrow> string" where
  "firstName as =
     (case as of [] \<Rightarrow> coastalWaters
      | a # _ \<Rightarrow> if area_name a \<noteq> [] then area_name a else coastalWaters)"

definition synthetic :: "runtime \<Rightarrow> TsunamiData \<Rightarrow> EarthquakeData" where
  "synthetic rt tsu =
     (let hasWarning = (\<exists>a \<in> set (areas tsu). grade a = ''Warning'');
          hasWatch = (\<exists>a \<in> set (areas tsu). grade a = ''Watch'')
      in \<lparr>eq_time = toISOString rt (now rt),
          maxScale = 0,
          domesticTsunami = (if hasWarning then ''Warning'' else if hasWatch then ''Watch'' else ''None''),
          hypo_name = firstName (areas tsu),
          hypo_latitude = 35,
          hypo_longitude = 139,
          hypo_depth = 10,
          hypo_magnitude = 3,
          freeFormComment = syntheticComment,
          points = [],
          syntheticFromTsunami = True\<rparr>)"

text \<open>
  \<^verbatim>\<open>handleOne\<close> of \<^verbatim>\<open>ingestP2pquakePayload\<close>. The queued React state updates are applied
  in the order they were queued, at one reading of the clock.
\<close>

fun handleOne :: "runtime \<Rightarrow> P2PQuakeData \<Rightarrow> store \<Rightarrow> store" where
  "handleOne rt (Earthquake d) s =
     s\<lparr>earthquakeData := take 50 (d # filter (inWindow rt) (earthquakeData s))\<rparr>"
| "handleOne rt (EEW d) s = s\<lparr>eewData := Some d\<rparr>"
| "handleOne rt (Tsunami tsu) s =
     (let s1 = s\<lparr>tsunamiData := Some tsu\<rparr>
      in if \<not> cancelled tsu
         then s1\<lparr>earthquakeData :=
                   take 50 (synthetic rt tsu # filter (inWindow rt) (earthquakeData s1))\<rparr>
         else s1)"
| "handleOne rt (OtherCode c) s = s"
| "handleOne rt NotAnObject s = s"

text \<open>A payload is one message or an array of them (\<^verbatim>\<open>payload.forEach(handleOne)\<close>).\<close>

fun ingestP2pquakePayload :: "runtime \<Rightarrow> P2PQuakeData list \<Rightarrow> store \<Rightarrow> store" where
  "ingestP2pquakePayload rt [] s = s"
| "ingestP2pquakePayload rt (d # ds) s = ingestP2pquakePayload rt ds (handleOne rt d s)"

text \<open>
  \<^verbatim>\<open>ws.current.onmessage\<close> of \<^verbatim>\<open>connectWebSocket\<close>, the live socket. \<open>None\<close> is a frame that
  \<^verbatim>\<open>JSON.parse\<close> rejects: the exception is caught and logged.
\<close>

fun onmessage :: "runtime \<Rightarrow> P2PQuakeData option \<Rightarrow> store \<Rightarrow> store" where
  "onmessage rt (Some (Earthquake receivedData)) s =
     (let filteredPrevData = filter (inWindow rt) (earthquakeData s);
          updatedData = receivedData # filteredPrevData;
          latestEarthquake = hd updatedData
      in (if Some (eq_time latestEarthquake) \<noteq> lastPlayedSoundTime s
          then s\<lparr>lastPlayedSoundTime := Some (eq_time latestEarthquake)\<rparr>
          else s)\<lparr>earthquakeData := updatedData\<rparr>)"
| "onmessage rt (Some (EEW d)) s = s\<lparr>eewData := Some d\<rparr>"
| "onmessage rt (Some (Tsunami d)) s = s\<lparr>tsunamiData := Some d\<rparr>"
| "onmessage rt (Some (OtherCode c)) s = s"
| "onmessage rt (Some NotAnObject) s = s"
| "onmessage rt None s = s"

section \<open>Tsunami warning level shown in the sidebar\<close>

datatype tsunamiWarning = none | watch | warning | major_warning

text \<open>
  The \<^verbatim>\<open>tsunamiWarning\<close> prop that \<^verbatim>\<open>Home\<close> passes to \<^verbatim>\<open>Sidebar\<close>. It is written after the
  spread \<^verbatim>\<open>{...displayedEarthquakeData}\<close>, so it replaces the value \<^verbatim>\<open>transformData\<close> put
  there.
\<close>

definition sidebarTsunamiWarning :: "TsunamiData option \<Rightarrow> tsunamiWarning" where
  "sidebarTsunamiWarning tsunami =
     (case tsunami of
        None \<Rightarrow> none
      | Some td \<Rightarrow>
          if \<not> cancelled td then
            (if \<exists>a \<in> set (areas td). grade a = ''MajorWarning'' then major_warning
             else if \<exists>a \<in> set (areas td). grade a = ''Warning'' then warning
             else if \<exists>a \<in> set (areas td). grade a = ''Watch'' then watch
             else none)
          else none)"

text \<open>The \<^verbatim>\<open>tsunamiWarning\<close> field computed by \<^verbatim>\<open>transformData\<close>.\<close>

definition transformDataTsunamiWarning :: "TsunamiData option \<Rightarrow> tsunamiWarning" where
  "transformDataTsunamiWarning tsunami =
     (case tsunami of
        None \<Rightarrow> none
      | Some td \<Rightarrow>
          if \<not> cancelled td then
            (if \<exists>a \<in> set (areas td). grade a = ''Warning'' then warning
             else if \<exists>a \<in> set (areas td). grade a = ''Watch'' then watch
             else none)
          else none)"

section \<open>Binary telemetry decoder\<close>

text \<open>
  A \<^verbatim>\<open>Buffer\<close> is a list of bytes. \<^verbatim>\<open>BitReader\<close> keeps the buffer and a bit offset;
  \<^verbatim>\<open>readBits\<close> is given the offset and returns the value read with the offset advanced.
  The bitwise operators of JavaScript work on 32-bit signed integers, so the accumulator
  is a 32-bit word read as signed at the end. Indexing a buffer past its end gives
  \<^verbatim>\<open>undefined\<close>, which \<^verbatim>\<open>>>\<close> turns into 0.
\<close>

type_synonym Buffer = "8 word list"

fun readBitsLoop :: "Buffer \<Rightarrow> nat \<Rightarrow> 32 word \<Rightarrow> nat \<Rightarrow> 32 word \<times> nat" where
  "readBitsLoop buffer 0 val bitOffset = (val, bitOffset)"
| "readBitsLoop buffer (Suc n) val bitOffset =
     (let byteIndex = bitOffset div 8;
          bitInByteIndex = 7 - bitOffset mod 8;
          bit = (if byteIndex < length buffer
                 then ucast (drop_bit bitInByteIndex (buffer ! byteIndex)) AND 1
                 else 0)
      in readBitsLoop buffer n (push_bit 1 val OR bit) (bitOffset + 1))"

definition readBits :: "Buffer \<Rightarrow> nat \<Rightarrow> nat \<Rightarrow> int \<times> nat" where
  "readBits buffer numBits bitOffset =
     (case readBitsLoop buffer numBits 0 bitOffset of (val, off) \<Rightarrow> (sint val, off))"

datatype fetch_error = FetchFailed

text \<open>
  \<^verbatim>\<open>fetchMMIData\<close>: the argument is the outcome of \<^verbatim>\<open>axios.get\<close> on the \<^verbatim>\<open>.b\<close> file, a
  rejection or the body. The loop bound \<^verbatim>\<open>Math.floor((buffer.length * 8 - 32) / 4)\<close> is
  negative for a body shorter than the header, and the loop then does not run.
\<close>

fun mmiLoop :: "Buffer \<Rightarrow> nat \<Rightarrow> nat \<Rightarrow> int list" where
  "mmiLoop buffer 0 bitOffset = []"
| "mmiLoop buffer (Suc n) bitOffset =
     (case readBits buffer 4 bitOffset of (v, off) \<Rightarrow> v # mmiLoop buffer n off)"

definition fetchMMIData :: "fetch_error + Buffer \<Rightarrow> fetch_error + int list" where
  "fetchMMIData response =
     (case response of
        Inl e \<Rightarrow> Inl e
      | Inr buffer \<Rightarrow>
          (case readBits buffer 32 0 of (_, off) \<Rightarrow>
             let totalStations = (int (length buffer) * 8 - 32) div 4
             in Inr (mmiLoop buffer (nat totalStations) off)))"

record Station =
  station_id :: nat
  station_latitude :: rat
  station_longitude :: rat
  station_name :: string
  mmi :: int

text \<open>
  Coordinates are JavaScript doubles in the source and rationals here. Every value
  computed is \<open>30 + k / 100\<close> or \<open>120 + k / 100\<close> (plus 10) with \<open>k < 1024\<close>; the doubles
  are within \<open>10\<^sup>-\<^sup>1\<^sup>3\<close> of these, the bounds 37, 38, 120 and 121 are met exactly
  (\<open>700 / 100\<close> is exactly 7 in a double), and every other value is at least 0.01 from a
  bound, so the comparisons come out the same. \<^verbatim>\<open>parseFloat(x.toFixed(6))\<close> rounds to six
  decimals, halves upwards.
\<close>

definition toFixed6 :: "rat \<Rightarrow> rat" where
  "toFixed6 x = of_int (round (x * 1000000)) / 1000000"

fun digits :: "nat \<Rightarrow> string" where
  "digits n =
     (if n < 10 then [''0123456789'' ! n]
      else digits (n div 10) @ [''0123456789'' ! (n mod 10)])"

declare digits.simps [simp del]

fun stationLoop :: "Buffer \<Rightarrow> int list option \<Rightarrow> nat \<Rightarrow> nat \<Rightarrow> nat \<Rightarrow> Station list" where
  "stationLoop buffer mmiData i 0 bitOffset = []"
| "stationLoop buffer mmiData i (Suc n) bitOffset =
     (case readBits buffer 10 bitOffset of (latBits, off1) \<Rightarrow>
      case readBits buffer 10 off1 of (lonBits, off2) \<Rightarrow>
        let lat = 30 + of_int latBits / 100;
            lon0 = 120 + of_int lonBits / 100;
            lon = (if lat \<ge> 37 \<and> lat \<le> 38 \<and> lon0 \<ge> 120 \<and> lon0 \<le> 121 then lon0 + 10 else lon0);
            m = (case mmiData of
                   None \<Rightarrow> 0
                 | Some ms \<Rightarrow> if i < length ms then ms ! i else 0)
        in \<lparr>station_id = i + 1,
            station_latitude = toFixed6 lat,
            station_longitude = toFixed6 lon,
            station_name = ''STN-'' @ digits (i + 1),
            mmi = m\<rparr>
           # stationLoop buffer mmiData (i + 1) n off2)"

text \<open>
  \<^verbatim>\<open>fetchStations\<close>: \<^verbatim>\<open>Promise.all\<close> of the request for the \<^verbatim>\<open>.s\<close> file and of
  \<^verbatim>\<open>fetchMMIData(...).catch(() => null)\<close>. A rejected station request rejects the whole;
  a rejected intensity request has become \<^verbatim>\<open>null\<close>.
\<close>

definition fetchStations :: "fetch_error + Buffer \<Rightarrow> fetch_error + Buffer \<Rightarrow> fetch_error + Station list" where
  "fetchStations stationResponse mmiResponse =
     (let mmiData = (case fetchMMIData mmiResponse of Inl _ \<Rightarrow> None | Inr ms \<Rightarrow> Some ms)
      in case stationResponse of
           Inl e \<Rightarrow> Inl e
         | Inr buffer \<Rightarrow>
             let totalStations = (length buffer * 8) div 20
             in Inr (stationLoop buffer mmiData 0 totalStations 0))"

text \<open>
  The layout in words, to compare the reader with: bit \<open>k\<close> of the stream is bit
  \<open>7 - k mod 8\<close> of byte \<open>k div 8\<close>, and a field of \<open>n\<close> bits at offset \<open>off\<close> is the
  unsigned number whose most significant bit comes first.
\<close>

definition streamBit :: "Buffer \<Rightarrow> nat \<Rightarrow> nat" where
  "streamBit buffer k =
     (if k div 8 < length buffer \<and> bit (buffer ! (k div 8)) (7 - k mod 8) then 1 else 0)"

fun field :: "Buffer \<Rightarrow> nat \<Rightarrow> nat \<Rightarrow> nat" where
  "field buffer off 0 = 0"
| "field buffer off (Suc n) = 2 * field buffer off n + streamBit buffer (off + n)"

text \<open>
  The station record in words: the record at bit offset \<open>off\<close> is a 10-bit latitude
  field followed by a 10-bit longitude field; latitude is \<open>30 + latBits / 100\<close>,
  longitude is \<open>120 + lonBits / 100\<close>, increased by 10 inside the box
  \<open>[37, 38] \<times> [120, 121]\<close>; the id is the index plus one and the intensity is the entry
  of the intensity table at the same index, 0 where there is none.
\<close>

definition recordAt :: "Buffer \<Rightarrow> int list option \<Rightarrow> nat \<Rightarrow> nat \<Rightarrow> Station" where
  "recordAt buffer mmiData i off =
     (let lat = 30 + of_nat (field buffer off 10) / 100;
          lon0 = 120 + of_nat (field buffer (off + 10) 10) / 100
      in \<lparr>station_id = i + 1,
          station_latitude = lat,
          station_longitude =
            (if 37 \<le> lat \<and> lat \<le> 38 \<and> 120 \<le> lon0 \<and> lon0 \<le> 121 then lon0 + 10 else lon0),
          station_name = ''STN-'' @ digits (i + 1),
          mmi = (case mmiData of
                   None \<Rightarrow> 0
                 | Some ms \<Rightarrow> if i < length ms then ms ! i else 0)\<rparr>)"

text \<open>
  The decode of a coordinate buffer whose first \<open>hdr\<close> bits are a header that is skipped:
  \<open>(totalBits - hdr) div 20\<close> records, record \<open>i\<close> at bit \<open>hdr + 20 * i\<close>. A buffer
  shorter than the header has no record.
\<close>

definition decodeSkipping :: "nat \<Rightarrow> Buffer \<Rightarrow> int list option \<Rightarrow> Station list" where
  "decodeSkipping hdr buffer mmiData =
     map (\<lambda>i. recordAt buffer mmiData i (hdr + 20 * i)) [0 ..< (length buffer * 8 - hdr) div 20]"

text \<open>
  The coordinates of record \<open>i\<close> as decoded from a buffer without header, before any
  correction, and the box of the island correction.
\<close>

definition decodedLat :: "Buffer \<Rightarrow> nat \<Rightarrow> rat" where
  "decodedLat buffer i = 30 + of_nat (field buffer (20 * i) 10) / 100"

definition decodedLon :: "Buffer \<Rightarrow> nat \<Rightarrow> rat" where
  "decodedLon buffer i = 120 + of_nat (field buffer (20 * i + 10) 10) / 100"

definition inBox :: "rat \<Rightarrow> rat \<Rightarrow> bool" where
  "inBox lat lon = (37 \<le> lat \<and> lat \<le> 38 \<and> 120 \<le> lon \<and> lon \<le> 121)"

section \<open>Scraped table feed\<close>

text \<open>
  Strings are byte lists. \<^verbatim>\<open>trim\<close> and the class \<^verbatim>\<open>\s\<close> are modelled on the ASCII white
  space; \<^verbatim>\<open>\d\<close> is the ASCII digits. What the parsers take from the runtime:
  \<^verbatim>\<open>Number.parseFloat\<close>, with \<open>None\<close> for a result that \<^verbatim>\<open>Number.isFinite\<close> rejects, and
  \<^verbatim>\<open>new Date(s)\<close> followed by \<^verbatim>\<open>toISOString()\<close>, with \<open>None\<close> for an invalid date.
\<close>

record builtins =
  parseFloat :: "string \<Rightarrow> rat option"
  dateToISOString :: "string \<Rightarrow> string option"

definition isSpace :: "char \<Rightarrow> bool" where
  "isSpace c = (c \<in> {CHR '' '', CHR 0x09, CHR 0x0A, CHR 0x0B, CHR 0x0C, CHR 0x0D})"

definition isDigit :: "char \<Rightarrow> bool" where
  "isDigit c = (c \<in> set ''0123456789'')"

definition trim :: "string \<Rightarrow> string" where
  "trim s = rev (dropWhile isSpace (rev (dropWhile isSpace s)))"

definition takeDigits :: "nat \<Rightarrow> string \<Rightarrow> (string \<times> string) option" where
  "takeDigits n s =
     (if n \<le> length s \<and> (\<forall>c \<in> set (take n s). isDigit c) then Some (take n s, drop n s) else None)"

definition expectChar :: "char \<Rightarrow> string \<Rightarrow> string option" where
  "expectChar c s = (case s of [] \<Rightarrow> None | x # r \<Rightarrow> if x = c then Some r else None)"

definition someSpaces :: "string \<Rightarrow> string option" where
  "someSpaces s =
     (case s of [] \<Rightarrow> None | x # r \<Rightarrow> if isSpace x then Some (dropWhile isSpace r) else None)"

text \<open>
  The match of \<^verbatim>\<open>/^(\d{4})\/(\d{2})\/(\d{2})\s+(\d{2}):(\d{2}):(\d{2})$/\<close>, with its six
  groups. After \<^verbatim>\<open>\s+\<close> comes a digit, so the greedy match is the only one.
\<close>

definition matchKst :: "string \<Rightarrow> (string \<times> string \<times> string \<times> string \<times> string \<times> string) option" where
  "matchKst s = do {
     (y, r1) \<leftarrow> takeDigits 4 s;
     r2 \<leftarrow> expectChar CHR ''/'' r1;
     (mo, r3) \<leftarrow> takeDigits 2 r2;
     r4 \<leftarrow> expectChar CHR ''/'' r3;
     (d, r5) \<leftarrow> takeDigits 2 r4;
     r6 \<leftarrow> someSpaces r5;
     (hh, r7) \<leftarrow> takeDigits 2 r6;
     r8 \<leftarrow> expectChar CHR '':'' r7;
     (mm, r9) \<leftarrow> takeDigits 2 r8;
     r10 \<leftarrow> expectChar CHR '':'' r9;
     (ss, r11) \<leftarrow> takeDigits 2 r10;
     if r11 = [] then Some (y, mo, d, hh, mm, ss) else None
   }"

definition parseKstToIsoUtc :: "builtins \<Rightarrow> string \<Rightarrow> string option" where
  "parseKstToIsoUtc js input =
     (case matchKst (trim input) of
        None \<Rightarrow> None
      | Some (y, mo, d, hh, mm, ss) \<Rightarrow>
          dateToISOString js (y @ ''-'' @ mo @ ''-'' @ d @ ''T'' @ hh @ '':'' @ mm @ '':'' @ ss @ ''+09:00''))"

definition parseLat :: "builtins \<Rightarrow> string \<Rightarrow> rat option" where
  "parseLat js text =
     (let t = trim text;
          ns = (if CHR ''S'' \<in> set t then - 1 else 1);
          num = trim (filter (\<lambda>c. c \<notin> {CHR ''N'', CHR ''S''}) t)
      in case parseFloat js num of None \<Rightarrow> None | Some v \<Rightarrow> Some (ns * v))"

definition parseLng :: "builtins \<Rightarrow> string \<Rightarrow> rat option" where
  "parseLng js text =
     (let t = trim text;
          ew = (if CHR ''W'' \<in> set t then - 1 else 1);
          num = trim (filter (\<lambda>c. c \<notin> {CHR ''E'', CHR ''W''}) t)
      in case parseFloat js num of None \<Rightarrow> None | Some v \<Rightarrow> Some (ew * v))"

record KmaEarthquake =
  time :: string
  location :: string
  depth :: rat
  magnitude :: rat
  intensity :: int
  latitude :: "rat option"
  longitude :: "rat option"
  intensityText :: "string option"

definition republicOfKorea :: string where
  "republicOfKorea = [CHR 0xEB, CHR 0x8C, CHR 0x80, CHR 0xED, CHR 0x95, CHR 0x9C, CHR 0xEB, CHR 0xAF,
      CHR 0xBC, CHR 0xEA, CHR 0xB5, CHR 0xAD]"

text \<open>
  A table row is the list of the texts of its \<^verbatim>\<open>td\<close> cells. \<^verbatim>\<open>get\<close> gives the empty string
  for a cell that is not there.
\<close>

definition get :: "string list \<Rightarrow> nat \<Rightarrow> string" where
  "get tds idx = (if idx < length tds then trim (tds ! idx) else [])"

text \<open>
  The callback of \<^verbatim>\<open>$('#excel_body tbody tr').each\<close>: it is given the row and the events
  collected so far and returns them, with the row's event pushed or not.
\<close>

definition eachRow :: "builtins \<Rightarrow> string list \<Rightarrow> KmaEarthquake list \<Rightarrow> KmaEarthquake list" where
  "eachRow js tds events =
     (if length tds = 0 then events
      else
        let timeStr = get tds 1;
            magStr = get tds 2;
            depthStr = get tds 3;
            intenStr = get tds 4;
            latStr = get tds 5;
            lngStr = get tds 6;
            locStr = get tds 7;
            iso = parseKstToIsoUtc js timeStr;
            magnitude = parseFloat js magStr;
            depth = parseFloat js depthStr;
            latitude = parseLat js latStr;
            longitude = parseLng js lngStr
        in case iso of
             None \<Rightarrow> events
           | Some isoStr \<Rightarrow>
               if isoStr = [] then events
               else events @
                 [\<lparr>time = isoStr,
                   location = (if locStr \<noteq> [] then locStr else republicOfKorea),
                   depth = (case depth of Some v \<Rightarrow> v | None \<Rightarrow> 0),
                   magnitude = (case magnitude of Some v \<Rightarrow> v | None \<Rightarrow> 0),
                   intensity = - 1,
                   latitude = latitude,
                   longitude = longitude,
                   intensityText = (if intenStr \<noteq> [] then Some intenStr else None)\<rparr>])"

text \<open>The events array after the loop over the rows, before it is sorted.\<close>

definition tableEvents :: "builtins \<Rightarrow> string list list \<Rightarrow> KmaEarthquake list" where
  "tableEvents js rows = foldl (\<lambda>events tds. eachRow js tds events) [] rows"

section \<open>Example data\<close>

text \<open>
  A report with a given time string, a runtime in UTC whose clock reads two and a half
  days after the epoch and whose \<^verbatim>\<open>Date\<close> knows three time strings, and a store.
\<close>

definition quakeAt :: "string \<Rightarrow> EarthquakeData" where
  "quakeAt t =
     \<lparr>eq_time = t, maxScale = 30, domesticTsunami = ''None'', hypo_name = ''Tokyo'',
      hypo_latitude = 357 / 10, hypo_longitude = 1397 / 10, hypo_depth = 40,
      hypo_magnitude = 9 / 2, freeFormComment = [], points = [],
      syntheticFromTsunami = False\<rparr>"

definition exampleRuntime :: runtime where
  "exampleRuntime =
     \<lparr>now = 216000000,
      localTime = (\<lambda>t. t),
      utc = (\<lambda>l. l),
      parseDate = (\<lambda>t. if t = ''1969/12/31 23:59:59'' then Some (- 1000)
                        else if t = ''1970/01/01 00:00:00'' then Some 0
                        else if t = ''1970/01/03 12:00:00'' then Some 216000000
                        else None),
      toISOString = (\<lambda>t. ''1970-01-03T12:00:00.000Z'')\<rparr>"

text \<open>
  A zone whose offset from UTC steps from \<open>before\<close> to \<open>after\<close> at the instant \<open>T\<close>, as
  at the start or the end of daylight saving time, with the clock reading \<open>n\<close>. A local
  time that the step skips or repeats is read with the offset before the step.
\<close>

definition stepZone :: "int \<Rightarrow> int \<Rightarrow> int \<Rightarrow> int \<Rightarrow> runtime" where
  "stepZone T before after n =
     \<lparr>now = n,
      localTime = (\<lambda>t. t + (if t < T then before else after)),
      utc = (\<lambda>l. l - (if l < T + max before after then before else after)),
      parseDate = (\<lambda>t. None),
      toISOString = (\<lambda>t. [])\<rparr>"

definition exampleTsunami :: "bool \<Rightarrow> area list \<Rightarrow> TsunamiData" where
  "exampleTsunami c as = \<lparr>tsu_time = ''1970/01/03 11:59:00'', cancelled = c, areas = as\<rparr>"

text \<open>
  Builtins that know the numbers and the one date of the example rows of the table.
\<close>

definition exampleBuiltins :: builtins where
  "exampleBuiltins =
     \<lparr>parseFloat = (\<lambda>s. if s = ''2.3'' then Some (23 / 10)
                         else if s = ''12'' then Some 12
                         else if s = ''36.12'' then Some (903 / 25)
                         else if s = ''127.45'' then Some (2549 / 20)
                         else None),
      dateToISOString = (\<lambda>s. if s = ''2025-01-02T03:04:05+09:00''
                              then Some ''2025-01-01T18:04:05.000Z'' else None)\<rparr>"

definition exampleRow :: "string list" where
  "exampleRow =
     [''1'', '' 2025/01/02  03:04:05 '', ''2.3'', ''12'', ''I'', ''36.12 S'', ''127.45 E'', ''Gyeongju'']"

definition brokenRow :: "string list" where
  "brokenRow = [''2'', ''2025-01-02 03:04'', ''2.3'', ''12'', ''I'', ''36.12 N'', ''127.45 E'', ''Gyeongju'']"

definition emptyStore :: store where
  "emptyStore = \<lparr>earthquakeData = [], eewData = None, tsunamiData = None, lastPlayedSoundTime = None\<rparr>"

section \<open>Properties of the reconnect backoff\<close>

lemma backoffMs_setConnected [simp]: "backoffMs (setConnected c b s) = backoffMs s"
  by (cases c) simp_all

lemma backoffMs_onopen [simp]: "backoffMs (onopen c s) = 5000"
  by (simp add: onopen_def)

lemma backoffMs_onclose [simp]:
  "backoffMs (fst (onclose disabled c s)) = (if disabled then 0 else min 60000 (2 * backoffMs s))"
  by (simp add: onclose_def Let_def mult.commute)

lemma snd_onclose [simp]:
  "snd (onclose disabled c s) =
     (if disabled \<or> backoffMs s = 0 then None else Some (min 60000 (2 * backoffMs s)))"
  by (simp add: onclose_def Let_def mult.commute)

lemma length_closes [simp]: "length (closes es s) = length es"
  by (induction es arbitrary: s) (auto split: prod.splits)

lemma closes_zero:
  "backoffMs s = 0 \<Longrightarrow> i < length es \<Longrightarrow> closes es s ! i = None"
proof (induction es arbitrary: s i)
  case Nil
  then show ?case by simp
next
  case (Cons e es)
  obtain c dis where e: "e = (c, dis)" by (cases e)
  obtain s' d where oc: "onclose dis c s = (s', d)" by (cases "onclose dis c s")
  have b': "backoffMs s' = 0" and d: "d = None"
    using backoffMs_onclose [of dis c s] snd_onclose [of dis c s] oc Cons.prems(1) by auto
  show ?case
  proof (cases i)
    case 0
    then show ?thesis using e oc d by simp
  next
    case (Suc k)
    then show ?thesis using e oc Cons.IH [OF b', of k] Cons.prems(2) by simp
  qed
qed

lemma closes_bounds:
  "i < length es \<Longrightarrow> closes es s ! i = Some d \<Longrightarrow> min 60000 (backoffMs s) \<le> d \<and> d \<le> 60000"
proof (induction es arbitrary: s i)
  case Nil
  then show ?case by simp
next
  case (Cons e es)
  obtain c dis where e: "e = (c, dis)" by (cases e)
  obtain s' d' where oc: "onclose dis c s = (s', d')" by (cases "onclose dis c s")
  have b': "backoffMs s' = (if dis then 0 else min 60000 (2 * backoffMs s))"
    and d': "d' = (if dis \<or> backoffMs s = 0 then None else Some (min 60000 (2 * backoffMs s)))"
    using backoffMs_onclose [of dis c s] snd_onclose [of dis c s] oc by auto
  show ?case
  proof (cases i)
    case 0
    then have "d' = Some d" using Cons.prems e oc by simp
    then show ?thesis using d' by (auto split: if_splits)
  next
    case (Suc k)
    then have k: "k < length es" and nth: "closes es s' ! k = Some d"
      using Cons.prems e oc by simp_all
    have "backoffMs s' \<noteq> 0" using closes_zero [OF _ k, of s'] nth by auto
    moreover have "min 60000 (backoffMs s') \<le> d \<and> d \<le> 60000"
      using Cons.IH [OF k nth] .
    ultimately show ?thesis using b' by (auto split: if_splits)
  qed
qed

lemma closes_mono:
  "i \<le> j \<Longrightarrow> j < length es \<Longrightarrow> closes es s ! i = Some a \<Longrightarrow> closes es s ! j = Some b \<Longrightarrow> a \<le> b"
proof (induction es arbitrary: s i j)
  case Nil
  then show ?case by simp
next
  case (Cons e es)
  obtain c dis where e: "e = (c, dis)" by (cases e)
  obtain s' d' where oc: "onclose dis c s = (s', d')" by (cases "onclose dis c s")
  have b': "backoffMs s' = (if dis then 0 else min 60000 (2 * backoffMs s))"
    and d': "d' = (if dis \<or> backoffMs s = 0 then None else Some (min 60000 (2 * backoffMs s)))"
    using backoffMs_onclose [of dis c s] snd_onclose [of dis c s] oc by auto
  show ?case
  proof (cases j)
    case 0
    then show ?thesis using Cons.prems by simp
  next
    case (Suc j')
    then have j': "j' < length es" and nj: "closes es s' ! j' = Some b"
      using Cons.prems e oc by simp_all
    show ?thesis
    proof (cases i)
      case 0
      then have "d' = Some a" using Cons.prems e oc by simp
      then have "backoffMs s' = a" "a \<le> 60000" using d' b' by (auto split: if_splits)
      then show ?thesis using closes_bounds [OF j' nj] by simp
    next
      case (Suc i')
      then show ?thesis using Cons.prems Cons.IH [of i' j' s'] e oc \<open>j = Suc j'\<close> by simp
    qed
  qed
qed

lemma closes_enabled:
  "\<forall>e\<in>set es. \<not> snd e \<Longrightarrow> 0 < backoffMs s \<Longrightarrow> i < length es \<Longrightarrow>
   closes es s ! i = Some (min 60000 (backoffMs s * 2 ^ Suc i))"
proof (induction es arbitrary: s i)
  case Nil
  then show ?case by simp
next
  case (Cons e es)
  obtain c where e: "e = (c, False)" using Cons.prems(1) by (cases e) auto
  obtain s' d' where oc: "onclose False c s = (s', d')" by (cases "onclose False c s")
  have b': "backoffMs s' = min 60000 (2 * backoffMs s)"
    and d': "d' = Some (min 60000 (2 * backoffMs s))"
    using backoffMs_onclose [of False c s] snd_onclose [of False c s] oc Cons.prems(2) by auto
  show ?case
  proof (cases i)
    case 0
    then show ?thesis using e oc d' by (simp add: mult.commute)
  next
    case (Suc k)
    have pos: "0 < backoffMs s'" using b' Cons.prems(2) by simp
    have "closes es s' ! k = Some (min 60000 (backoffMs s' * 2 ^ Suc k))"
      using Cons.IH [of s' k] Cons.prems pos Suc by simp
    moreover have "min 60000 (min 60000 (2 * backoffMs s) * 2 ^ Suc k)
        = min (60000::nat) (backoffMs s * 2 ^ Suc (Suc k))"
    proof (cases "2 * backoffMs s \<le> 60000")
      case True
      then show ?thesis by (simp add: min_def mult.assoc mult.commute mult.left_commute)
    next
      case False
      then have "60000 \<le> 60000 * (2::nat) ^ Suc k" by simp
      moreover have "60000 \<le> backoffMs s * 2 ^ Suc (Suc k)"
      proof -
        have "60000 \<le> 2 * backoffMs s" using False by simp
        also have "\<dots> \<le> 2 * backoffMs s * 2 ^ Suc k" by simp
        finally show ?thesis by (simp add: mult.assoc mult.commute mult.left_commute)
      qed
      ultimately show ?thesis using False by (simp add: min_def)
    qed
    ultimately show ?thesis using e oc Suc b' by simp
  qed
qed

text \<open>
  Claim C4. For the JMA, SC and FJ sockets, the reconnect delays scheduled by consecutive
  closes double from the 5 second floor up to the 60 second ceiling: starting from the
  floor with the feeds enabled, the close number \<open>i\<close> (counted from 0) schedules
  \<open>min 60000 (5000 * 2 ^ (i + 1))\<close> ms; in any run of consecutive closes, from any state
  and whatever the disable switch does, a later scheduled delay is at least an earlier one
  and at most 60000 ms; and an open resets the delay to 5000 ms, so that the next close
  schedules 10000 ms.
\<close>

theorem reconnect_backoff:
  "((\<forall>e\<in>set es. \<not> snd e) \<and> backoffMs s = 5000 \<and> i < length es \<longrightarrow>
      closes es s ! i = Some (min 60000 (5000 * 2 ^ Suc i)))
   \<and> (i \<le> j \<and> j < length es \<and> closes es s ! i = Some a \<and> closes es s ! j = Some b \<longrightarrow>
      a \<le> b \<and> b \<le> 60000)
   \<and> backoffMs (onopen c s) = 5000
   \<and> snd (onclose False c' (onopen c s)) = Some 10000"
  using closes_enabled [of es s i] closes_mono [of i j es s a b] closes_bounds [of j es s b]
  by auto

theorem reconnect_backoff_witness:
  "backoffMs initWolfx = 5000
   \<and> closes [(JMA, False), (SC, False), (FJ, False), (JMA, False), (FJ, False)] initWolfx
       = [Some 10000, Some 20000, Some 40000, Some 60000, Some 60000]
   \<and> closes [(JMA, False), (SC, False), (FJ, False), (JMA, False), (FJ, False)] initWolfx ! 2
       = Some (min 60000 (5000 * 2 ^ Suc 2))
   \<and> (40000::nat) \<le> 60000
   \<and> backoffMs (onopen SC initWolfx) = 5000"
proof -
  let ?es = "[(JMA, False), (SC, False), (FJ, False), (JMA, False), (FJ, False)]"
  have run: "closes ?es initWolfx = [Some 10000, Some 20000, Some 40000, Some 60000, Some 60000]"
    by (simp add: initWolfx_def onclose_def Let_def)
  have h1: "(\<forall>e\<in>set ?es. \<not> snd e) \<and> backoffMs initWolfx = 5000 \<and> 2 < length ?es"
    by (simp add: initWolfx_def)
  have h2: "2 \<le> (4::nat) \<and> 4 < length ?es \<and> closes ?es initWolfx ! 2 = Some 40000
      \<and> closes ?es initWolfx ! 4 = Some 60000"
    unfolding run by simp
  from reconnect_backoff [of ?es initWolfx 2 4 40000 60000 SC JMA] h1 h2 run
  show ?thesis by simp
qed

text \<open>
  Claim C10. The three sockets share the one delay: a close on any of them sets the shared
  value to twice its old value capped at 60000 ms (to 0 when the feeds are disabled), the
  next close, on whichever socket, schedules its reconnect from that value, and an open on
  any of them resets the shared value to 5000 ms, so that the next close on any socket
  schedules 10000 ms.
\<close>

theorem shared_backoff:
  "backoffMs (fst (onclose disabled c1 s)) = (if disabled then 0 else min 60000 (2 * backoffMs s))
   \<and> snd (onclose False c2 (fst (onclose False c1 s)))
       = (if backoffMs s = 0 then None else Some (min 60000 (2 * min 60000 (2 * backoffMs s))))
   \<and> backoffMs (onopen c1 s) = 5000
   \<and> snd (onclose False c2 (onopen c1 s)) = Some 10000"
  by (simp add: min_def)

section \<open>Properties of the telemetry decoder\<close>

lemma field_first:
  "field buffer off (Suc n) = streamBit buffer off * 2 ^ n + field buffer (Suc off) n"
  by (induction n) (simp_all add: algebra_simps)

lemma field_less: "field buffer off n < 2 ^ n"
proof (induction n)
  case 0
  then show ?case by simp
next
  case (Suc n)
  have "streamBit buffer (off + n) \<le> 1" by (simp add: streamBit_def)
  then show ?case using Suc by simp
qed

lemma read_bit:
  "(ucast (drop_bit k (w :: 8 word)) AND 1 :: 32 word) = of_bool (bit w k)"
  by (rule bit_word_eqI) (auto simp: bit_simps)

lemma bit_val:
  "(if off div 8 < length buffer
    then ucast (drop_bit (7 - off mod 8) (buffer ! (off div 8))) AND 1 else 0 :: 32 word)
   = of_nat (streamBit buffer off)"
  by (simp add: streamBit_def read_bit)

lemma shift_or_streamBit:
  "push_bit 1 (v :: 32 word) OR of_nat (streamBit buffer off) = 2 * v + of_nat (streamBit buffer off)"
  by (simp add: streamBit_def push_bit_eq_mult or_one_eq mult.commute)

lemma readBitsLoop_step:
  "readBitsLoop buffer (Suc n) v off
     = readBitsLoop buffer n (2 * v + of_nat (streamBit buffer off)) (Suc off)"
proof -
  have "readBitsLoop buffer (Suc n) v off
      = readBitsLoop buffer n
          (push_bit 1 v OR (if off div 8 < length buffer
             then ucast (drop_bit (7 - off mod 8) (buffer ! (off div 8))) AND 1 else 0))
          (off + 1)"
    by (simp only: readBitsLoop.simps Let_def)
  then show ?thesis
    by (simp only: bit_val shift_or_streamBit Suc_eq_plus1)
qed

lemma readBitsLoop_field:
  "readBitsLoop buffer n v off = (v * 2 ^ n + of_nat (field buffer off n), off + n)"
proof (induction n arbitrary: v off)
  case 0
  then show ?case by simp
next
  case (Suc n)
  show ?case
    unfolding readBitsLoop_step Suc.IH field_first
    by (simp add: algebra_simps)
qed

lemma sint_of_nat_small:
  assumes "x < 2 ^ 31"
  shows "sint (of_nat x :: 32 word) = int x"
proof -
  have "sint (word_of_int (int x) :: 32 word) = signed_take_bit 31 (int x)"
    using sint_sbintrunc' [where 'a = 32, of "int x"] by simp
  also have "\<dots> = int x"
    using assms by (intro signed_take_bit_int_eq_self) auto
  finally show ?thesis by simp
qed

lemma readBits_field:
  assumes "n < 32"
  shows "readBits buffer n off = (int (field buffer off n), off + n)"
proof -
  have "field buffer off n < 2 ^ n" by (rule field_less)
  also have "(2::nat) ^ n \<le> 2 ^ 31" using assms by (intro power_increasing) auto
  finally have lt: "field buffer off n < 2 ^ 31" .
  show ?thesis by (simp add: readBits_def readBitsLoop_field sint_of_nat_small [OF lt])
qed

lemma toFixed6_hundredths: "toFixed6 (of_int a + of_int k / 100) = of_int a + of_int k / 100"
proof -
  have eq: "(of_int a + of_int k / 100) * 1000000 = (of_int (a * 1000000 + k * 10000) :: rat)"
    by (simp add: algebra_simps)
  show ?thesis
    unfolding toFixed6_def eq round_of_int by (simp add: algebra_simps)
qed


lemma toFixed6_lat: "toFixed6 (30 + of_nat k / 100) = 30 + of_nat k / 100"
  using toFixed6_hundredths [of 30 "int k"] by simp

lemma toFixed6_lon: "toFixed6 (120 + of_nat k / 100) = 120 + of_nat k / 100"
  using toFixed6_hundredths [of 120 "int k"] by simp

lemma toFixed6_lon10: "toFixed6 (120 + of_nat k / 100 + 10) = 120 + of_nat k / 100 + 10"
  using toFixed6_hundredths [of 130 "int k"] by (simp add: add.commute add.left_commute)

lemma stationLoop_Suc:
  "stationLoop buffer mmiData i (Suc n) off
     = recordAt buffer mmiData i off # stationLoop buffer mmiData (Suc i) n (off + 20)"
proof -
  have r1: "readBits buffer 10 off = (int (field buffer off 10), off + 10)"
    by (rule readBits_field) simp
  have r2: "readBits buffer 10 (off + 10) = (int (field buffer (off + 10) 10), off + 20)"
    using readBits_field [of 10 buffer "off + 10"] by simp
  show ?thesis
    unfolding stationLoop.simps r1 r2 prod.case Let_def recordAt_def
    by (simp only: toFixed6_lat toFixed6_lon toFixed6_lon10 if_distrib [of toFixed6]
          of_int_of_nat_eq Suc_eq_plus1 Station.simps list.simps simp_thms)
qed


lemma stationLoop_eq:
  "stationLoop buffer mmiData i n off
     = map (\<lambda>k. recordAt buffer mmiData (i + k) (off + 20 * k)) [0 ..< n]"
proof (induction n arbitrary: i off)
  case 0
  then show ?case by simp
next
  case (Suc n)
  have "map (\<lambda>k. recordAt buffer mmiData (i + k) (off + 20 * k)) [0 ..< Suc n]
      = recordAt buffer mmiData i off
        # map (\<lambda>k. recordAt buffer mmiData (Suc i + k) (off + 20 + 20 * k)) [0 ..< n]"
    by (simp only: upt_conv_Cons [of 0 "Suc n"] map_Suc_upt [symmetric] list.map zero_less_Suc)
       (simp add: o_def add.assoc)
  then show ?case
    unfolding stationLoop_Suc Suc.IH by simp
qed

lemma fetchStations_decode:
  "fetchStations (Inr buffer) mmiResponse
     = Inr (decodeSkipping 0 buffer (case fetchMMIData mmiResponse of Inl _ \<Rightarrow> None | Inr ms \<Rightarrow> Some ms))"
  by (simp add: fetchStations_def decodeSkipping_def stationLoop_eq Let_def del: stationLoop.simps)

lemma length_decodeSkipping [simp]:
  "length (decodeSkipping hdr buffer mmiData) = (length buffer * 8 - hdr) div 20"
  by (simp add: decodeSkipping_def)

lemma nth_decodeSkipping:
  "i < (length buffer * 8 - hdr) div 20 \<Longrightarrow>
   decodeSkipping hdr buffer mmiData ! i = recordAt buffer mmiData i (hdr + 20 * i)"
  by (simp add: decodeSkipping_def)

lemma field_numeral:
  "field b off (numeral k) = 2 * field b off (pred_numeral k) + streamBit b (off + pred_numeral k)"
  by (simp add: numeral_eq_Suc)

lemma readBits_offset: "snd (readBits buffer n off) = off + n"
  by (simp add: readBits_def readBitsLoop_field)

lemma mmiLoop_eq:
  "mmiLoop buffer n off = map (\<lambda>k. int (field buffer (off + 4 * k) 4)) [0 ..< n]"
proof (induction n arbitrary: off)
  case 0
  then show ?case by simp
next
  case (Suc n)
  have r: "readBits buffer 4 off = (int (field buffer off 4), off + 4)"
    by (rule readBits_field) simp
  have "map (\<lambda>k. int (field buffer (off + 4 * k) 4)) [0 ..< Suc n]
      = int (field buffer off 4) # map (\<lambda>k. int (field buffer (off + 4 + 4 * k) 4)) [0 ..< n]"
    by (simp only: upt_conv_Cons [of 0 "Suc n"] map_Suc_upt [symmetric] list.map zero_less_Suc)
       (simp add: o_def add.assoc)
  then show ?case
    unfolding mmiLoop.simps r prod.case Suc.IH by simp
qed

lemma fetchMMIData_eq:
  "fetchMMIData (Inr buffer)
     = Inr (map (\<lambda>k. int (field buffer (32 + 4 * k) 4))
              [0 ..< nat ((int (length buffer) * 8 - 32) div 4)])"
proof -
  obtain v off where r: "readBits buffer 32 0 = (v, off)" by (cases "readBits buffer 32 0")
  then have "off = 32" using readBits_offset [of buffer 32 0] by simp
  then show ?thesis
    by (simp add: fetchMMIData_def r mmiLoop_eq Let_def del: mmiLoop.simps)
qed

lemma mmi_recordAt [simp]:
  "mmi (recordAt buffer mmiData i off)
     = (case mmiData of None \<Rightarrow> 0 | Some ms \<Rightarrow> if i < length ms then ms ! i else 0)"
  by (simp add: recordAt_def Let_def)

lemma station_id_recordAt [simp]: "station_id (recordAt buffer mmiData i off) = i + 1"
  by (simp add: recordAt_def Let_def)

lemma coords_recordAt:
  "station_latitude (recordAt buffer mmiData i (20 * i)) = decodedLat buffer i"
  "station_longitude (recordAt buffer mmiData i (20 * i))
     = (if inBox (decodedLat buffer i) (decodedLon buffer i)
        then decodedLon buffer i + 10 else decodedLon buffer i)"
  by (simp_all add: recordAt_def Let_def decodedLat_def decodedLon_def inBox_def)

text \<open>
  Claim C1, as amended. The decoder of the coordinate buffer skips no header: for a buffer
  of \<open>totalBits\<close> bits it yields exactly \<open>totalBits div 20\<close> stations, and station \<open>i\<close>
  is decoded from the 20-bit record at bit \<open>20 * i\<close>, a 10-bit unsigned latitude field
  then a 10-bit unsigned longitude field, most significant bit first, as latitude
  \<open>30 + latBits / 100\<close> and longitude \<open>120 + lonBits / 100\<close> before the island correction.
  Each field is below 1024.
\<close>

theorem coordinate_decode:
  "fetchStations (Inr buffer) mmiResponse
     = Inr (decodeSkipping 0 buffer
             (case fetchMMIData mmiResponse of Inl _ \<Rightarrow> None | Inr ms \<Rightarrow> Some ms))
   \<and> length (decodeSkipping 0 buffer mmiData) = (length buffer * 8) div 20
   \<and> (i < (length buffer * 8) div 20 \<longrightarrow>
        decodeSkipping 0 buffer mmiData ! i = recordAt buffer mmiData i (20 * i))
   \<and> field buffer off 10 < 1024"
  using fetchStations_decode [of buffer mmiResponse] nth_decodeSkipping [of i buffer 0 mmiData]
    field_less [of buffer off 10]
  by simp

theorem coordinate_decode_witness:
  "fetchStations (Inr [0xAF, 0, 0x1F, 0, 0, 0, 0]) (Inl FetchFailed)
     = Inr (decodeSkipping 0 [0xAF, 0, 0x1F, 0, 0, 0, 0] None)
   \<and> length (decodeSkipping 0 [0xAF, 0, 0x1F, 0, 0, 0, 0] None) = 2
   \<and> decodeSkipping 0 [0xAF, 0, 0x1F, 0, 0, 0, 0] None ! 1
       = \<lparr>station_id = 2, station_latitude = 198 / 5, station_longitude = 120,
          station_name = ''STN-2'', mmi = 0\<rparr>"
proof -
  have h: "(1::nat) < (length [0xAF, 0, 0x1F, 0, 0, 0, 0 :: 8 word] * 8) div 20" by simp
  have r: "recordAt [0xAF, 0, 0x1F, 0, 0, 0, 0] None 1 (20 * 1)
      = \<lparr>station_id = 2, station_latitude = 198 / 5, station_longitude = 120,
         station_name = ''STN-2'', mmi = 0\<rparr>"
    by (simp add: recordAt_def field_numeral streamBit_def Let_def digits.simps)
  from coordinate_decode [of "[0xAF, 0, 0x1F, 0, 0, 0, 0]" "Inl FetchFailed" None 1 0] h r
  show ?thesis by (simp add: fetchMMIData_def)
qed

text \<open>
  Claim C1 as stated fails on a buffer of 7 bytes: skipping a 32-bit header would leave
  \<open>(56 - 32) div 20 = 1\<close> record, read from bit 32 on; the decoder returns two stations,
  read from bit 0 on.
\<close>

theorem coordinate_header_counterexample:
  "fetchStations (Inr [0xAF, 0, 0x1F, 0, 0, 0, 0]) (Inl FetchFailed)
     = Inr [\<lparr>station_id = 1, station_latitude = 37, station_longitude = 13001 / 100,
              station_name = ''STN-1'', mmi = 0\<rparr>,
            \<lparr>station_id = 2, station_latitude = 198 / 5, station_longitude = 120,
              station_name = ''STN-2'', mmi = 0\<rparr>]
   \<and> (length [0xAF, 0, 0x1F, 0, 0, 0, 0 :: 8 word] * 8 - 32) div 20 = 1
   \<and> decodeSkipping 32 [0xAF, 0, 0x1F, 0, 0, 0, 0] None
     = [\<lparr>station_id = 1, station_latitude = 30, station_longitude = 120,
         station_name = ''STN-1'', mmi = 0\<rparr>]"
  by (simp add: fetchStations_decode fetchMMIData_def decodeSkipping_def recordAt_def
        field_numeral streamBit_def Let_def upt_rec digits.simps)

text \<open>
  Claim C7. If the coordinate fetch fails, the decode fails and yields no stations. If
  the coordinate fetch succeeds the decode succeeds whatever the intensity fetch did:
  station \<open>i\<close> has id \<open>i + 1\<close>; when the intensity fetch failed every intensity is 0;
  when the intensity table is there, station \<open>i\<close> has the table's entry \<open>i\<close>, and 0
  where the table is too short.
\<close>

theorem intensity_pairing:
  "fetchStations (Inl e) mmiResponse = Inl e
   \<and> fetchMMIData (Inl e) = Inl e
   \<and> (\<exists>sts. fetchStations (Inr buffer) mmiResponse = Inr sts
         \<and> length sts = (length buffer * 8) div 20
         \<and> (\<forall>i < length sts.
               station_id (sts ! i) = i + 1
               \<and> mmi (sts ! i)
                   = (case fetchMMIData mmiResponse of
                        Inl _ \<Rightarrow> 0
                      | Inr ms \<Rightarrow> if i < length ms then ms ! i else 0)))"
proof -
  have "fetchStations (Inl e) mmiResponse = Inl e"
    by (simp add: fetchStations_def)
  moreover have "fetchMMIData (Inl e) = Inl e"
    by (simp add: fetchMMIData_def)
  moreover have "\<forall>i < length (decodeSkipping 0 buffer
        (case fetchMMIData mmiResponse of Inl _ \<Rightarrow> None | Inr ms \<Rightarrow> Some ms)).
      station_id (decodeSkipping 0 buffer
        (case fetchMMIData mmiResponse of Inl _ \<Rightarrow> None | Inr ms \<Rightarrow> Some ms) ! i) = i + 1
      \<and> mmi (decodeSkipping 0 buffer
        (case fetchMMIData mmiResponse of Inl _ \<Rightarrow> None | Inr ms \<Rightarrow> Some ms) ! i)
          = (case fetchMMIData mmiResponse of
               Inl _ \<Rightarrow> 0
             | Inr ms \<Rightarrow> if i < length ms then ms ! i else 0)"
    by (auto simp: nth_decodeSkipping split: sum.splits)
  ultimately show ?thesis
    using fetchStations_decode [of buffer mmiResponse] by simp
qed

theorem intensity_pairing_witness:
  "fetchStations (Inl FetchFailed) (Inr [0, 0, 0, 0, 0x12, 0x34]) = Inl FetchFailed
   \<and> fetchMMIData (Inr [0, 0, 0, 0, 0x12, 0x34]) = Inr [1, 2, 3, 4]
   \<and> map mmi (projr (fetchStations (Inr [0xAF, 0, 0x1F, 0, 0, 0, 0]) (Inr [0, 0, 0, 0, 0x12, 0x34])))
       = [1, 2]
   \<and> map mmi (projr (fetchStations (Inr [0xAF, 0, 0x1F, 0, 0, 0, 0]) (Inl FetchFailed))) = [0, 0]"
proof -
  let ?b = "[0xAF, 0, 0x1F, 0, 0, 0, 0] :: Buffer"
  let ?m = "[0, 0, 0, 0, 0x12, 0x34] :: Buffer"
  have m: "fetchMMIData (Inr ?m) = Inr [1, 2, 3, 4]"
    by (simp add: fetchMMIData_eq field_numeral streamBit_def upt_rec)
  have two: "\<And>xs :: int list. length xs = 2 \<Longrightarrow> xs = [xs ! 0, xs ! 1]"
  proof -
    fix xs :: "int list"
    assume "length xs = 2"
    then show "xs = [xs ! 0, xs ! 1]"
      by (cases xs; cases "tl xs") auto
  qed
  from intensity_pairing [of FetchFailed "Inr ?m" ?b]
  obtain sts where s1: "fetchStations (Inr ?b) (Inr ?m) = Inr sts" "length sts = 2"
    and s2: "\<forall>i < length sts. mmi (sts ! i) = (if i < 4 then [1, 2, 3, 4] ! i else 0)"
    and e1: "fetchStations (Inl FetchFailed) (Inr ?m) = Inl FetchFailed"
    unfolding m by auto
  have a: "map mmi sts = [1, 2]"
    using two [of "map mmi sts"] s1(2) s2 by simp
  from intensity_pairing [of FetchFailed "Inl FetchFailed" ?b]
  obtain sts' where t1: "fetchStations (Inr ?b) (Inl FetchFailed) = Inr sts'" "length sts' = 2"
    and t2: "\<forall>i < length sts'. mmi (sts' ! i) = 0"
    by (auto simp: fetchMMIData_def)
  have b: "map mmi sts' = [0, 0]"
    using two [of "map mmi sts'"] t1(2) t2 by simp
  show ?thesis using e1 m a b s1(1) t1(1) by simp
qed

text \<open>
  Claim C8. For every decoded station the longitude is the decoded longitude plus 10 if
  and only if the decoded position, before the correction, has
  \<open>37 \<le> latitude \<le> 38\<close> and \<open>120 \<le> longitude \<le> 121\<close>; outside that box the
  decoded coordinates are kept, and the latitude is never changed.
\<close>

theorem island_correction:
  "fetchStations (Inr buffer) mmiResponse = Inr sts \<and> i < length sts \<longrightarrow>
     station_latitude (sts ! i) = decodedLat buffer i
     \<and> (station_longitude (sts ! i) = decodedLon buffer i + 10)
         = inBox (decodedLat buffer i) (decodedLon buffer i)
     \<and> (\<not> inBox (decodedLat buffer i) (decodedLon buffer i) \<longrightarrow>
          station_longitude (sts ! i) = decodedLon buffer i)"
proof (intro impI, elim conjE)
  assume a: "fetchStations (Inr buffer) mmiResponse = Inr sts" and i: "i < length sts"
  let ?m = "case fetchMMIData mmiResponse of Inl _ \<Rightarrow> None | Inr ms \<Rightarrow> Some ms"
  have sts: "sts = decodeSkipping 0 buffer ?m"
    using a fetchStations_decode [of buffer mmiResponse] by simp
  then have "i < (length buffer * 8 - 0) div 20" using i by simp
  then have "sts ! i = recordAt buffer ?m i (20 * i)"
    using nth_decodeSkipping [of i buffer 0 ?m] sts by simp
  then show "station_latitude (sts ! i) = decodedLat buffer i
     \<and> (station_longitude (sts ! i) = decodedLon buffer i + 10)
         = inBox (decodedLat buffer i) (decodedLon buffer i)
     \<and> (\<not> inBox (decodedLat buffer i) (decodedLon buffer i) \<longrightarrow>
          station_longitude (sts ! i) = decodedLon buffer i)"
    by (simp add: coords_recordAt)
qed

theorem island_correction_witness:
  "decodedLat [0xAF, 0, 0x1F, 0, 0, 0, 0] 0 = 37
   \<and> decodedLon [0xAF, 0, 0x1F, 0, 0, 0, 0] 0 = 12001 / 100
   \<and> station_longitude (projr (fetchStations (Inr [0xAF, 0, 0x1F, 0, 0, 0, 0]) (Inl FetchFailed)) ! 0)
       = 13001 / 100
   \<and> decodedLat [0xAF, 0, 0x1F, 0, 0, 0, 0] 1 = 198 / 5
   \<and> decodedLon [0xAF, 0, 0x1F, 0, 0, 0, 0] 1 = 120
   \<and> station_longitude (projr (fetchStations (Inr [0xAF, 0, 0x1F, 0, 0, 0, 0]) (Inl FetchFailed)) ! 1)
       = 120"
proof -
  let ?b = "[0xAF, 0, 0x1F, 0, 0, 0, 0] :: Buffer"
  obtain sts where f: "fetchStations (Inr ?b) (Inl FetchFailed) = Inr sts"
    using fetchStations_decode [of ?b "Inl FetchFailed"] by simp
  then have n: "length sts = 2"
    using fetchStations_decode [of ?b "Inl FetchFailed"] by auto
  have v: "decodedLat ?b 0 = 37" "decodedLon ?b 0 = 12001 / 100"
      "decodedLat ?b 1 = 198 / 5" "decodedLon ?b 1 = 120"
    by (simp_all add: decodedLat_def decodedLon_def field_numeral streamBit_def)
  have h0: "fetchStations (Inr ?b) (Inl FetchFailed) = Inr sts \<and> 0 < length sts"
    and h1: "fetchStations (Inr ?b) (Inl FetchFailed) = Inr sts \<and> 1 < length sts"
    using f n by simp_all
  from island_correction [of ?b "Inl FetchFailed" sts 0] island_correction [of ?b "Inl FetchFailed" sts 1]
    h0 h1 v f
  show ?thesis by (simp add: inBox_def)
qed

section \<open>Properties of the event store\<close>

lemma twoDaysAgo_fixed:
  assumes "\<forall>t. localTime rt t = t + tz" and "\<forall>l. utc rt l = l - tz"
  shows "twoDaysAgo rt = now rt - 2 * dayMs - (now rt - 2 * dayMs + tz) mod dayMs"
proof -
  have l: "\<And>t. localTime rt t = t + tz" and u: "\<And>l. utc rt l = l - tz"
    using assms by simp_all
  have "localTime rt (now rt) - 2 * dayMs - tz + tz = now rt - 2 * dayMs + tz"
    unfolding l by simp
  then show ?thesis
    unfolding twoDaysAgo_def Let_def l u by simp
qed

lemma twoDaysAgo_bounds:
  assumes "\<forall>t. localTime rt t = t + tz" and "\<forall>l. utc rt l = l - tz"
  shows "now rt - 3 * dayMs < twoDaysAgo rt \<and> twoDaysAgo rt \<le> now rt - 2 * dayMs"
proof -
  let ?t1 = "now rt - 2 * dayMs"
  have "0 \<le> (?t1 + tz) mod dayMs" "(?t1 + tz) mod dayMs < dayMs"
    by (simp_all add: dayMs_def)
  then show ?thesis unfolding twoDaysAgo_fixed [OF assms] by simp
qed

text \<open>
  Where the offset changes the cutoff is not between two and three days back. New York,
  clock at 2025-03-11 00:30 local, two days after the start of daylight saving time: the
  cutoff is 47.5 hours back. New York, clock at 2025-11-04 23:30 local, two days after
  its end: the cutoff is 72.5 hours back.
\<close>

lemma twoDaysAgo_dst:
  "twoDaysAgo (stepZone 1741503600000 (- 18000000) (- 14400000) 1741667400000) = 1741496400000"
  "1741667400000 - 1741496400000 < 2 * dayMs"
  "twoDaysAgo (stepZone 1762063200000 (- 14400000) (- 18000000) 1762317000000) = 1762056000000"
  "1762317000000 - 1762056000000 > 3 * dayMs"
  by (simp_all add: twoDaysAgo_def stepZone_def dayMs_def Let_def)

lemma inWindow_iff:
  "inWindow rt x = (\<exists>t. parseDate rt (eq_time x) = Some t \<and> twoDaysAgo rt \<le> t)"
  by (simp add: inWindow_def split: option.splits)

lemma handleOne_quake:
  "earthquakeData (handleOne rt (Earthquake d) s)
     = take 50 (d # filter (inWindow rt) (earthquakeData s))"
  by simp

lemma tl_handleOne_quake:
  "tl (earthquakeData (handleOne rt (Earthquake d) s))
     = take 49 (filter (inWindow rt) (earthquakeData s))"
  by simp

lemma onmessage_quake:
  "earthquakeData (onmessage rt (Some (Earthquake d)) s)
     = d # filter (inWindow rt) (earthquakeData s)"
  by (simp add: Let_def)

lemma kept_in_window:
  assumes "x \<in> set (take n (filter (inWindow rt) xs))"
  shows "x \<in> set xs \<and> (\<exists>t. parseDate rt (eq_time x) = Some t \<and> twoDaysAgo rt \<le> t)"
proof -
  have "x \<in> set (filter (inWindow rt) xs)" using assms by (rule in_set_takeD)
  then have x: "x \<in> set xs" and "inWindow rt x" by simp_all
  then obtain t where t: "parseDate rt (eq_time x) = Some t" "twoDaysAgo rt \<le> t"
    unfolding inWindow_iff by blast
  then show ?thesis using x by blast
qed

text \<open>
  Claim C5, as amended. When a quake event (code 551) is inserted, the stored entries
  whose time does not parse or is before the cutoff are dropped and the new event is put
  in front; the cutoff is the instant the runtime gives for
  \<^verbatim>\<open>setDate(getDate() - 2)\<close> followed by \<^verbatim>\<open>setHours(0, 0, 0, 0)\<close>, local midnight two
  calendar days back. Through \<^verbatim>\<open>ingestP2pquakePayload\<close> the list is then cut to its first
  50 entries, newest insert first. In a time zone whose offset from UTC is constant the
  cutoff lies at least two and less than three days back, so there no earlier entry of
  three days or more is left after an insert, while an entry between two and three days
  old can stay.
\<close>

theorem quake_window:
  "earthquakeData (handleOne rt (Earthquake d) s)
     = take 50 (d # filter (inWindow rt) (earthquakeData s))
   \<and> length (earthquakeData (handleOne rt (Earthquake d) s)) \<le> 50
   \<and> hd (earthquakeData (onmessage rt (Some (Earthquake d)) s)) = d
   \<and> (\<forall>x \<in> set (tl (earthquakeData (handleOne rt (Earthquake d) s)))
           \<union> set (tl (earthquakeData (onmessage rt (Some (Earthquake d)) s))).
         x \<in> set (earthquakeData s)
         \<and> (\<exists>t. parseDate rt (eq_time x) = Some t \<and> twoDaysAgo rt \<le> t))
   \<and> ((\<forall>t. localTime rt t = t + tz) \<and> (\<forall>l. utc rt l = l - tz) \<longrightarrow>
        now rt - 3 * dayMs < twoDaysAgo rt \<and> twoDaysAgo rt \<le> now rt - 2 * dayMs
        \<and> (\<forall>x \<in> set (tl (earthquakeData (handleOne rt (Earthquake d) s)))
               \<union> set (tl (earthquakeData (onmessage rt (Some (Earthquake d)) s))).
              \<exists>t. parseDate rt (eq_time x) = Some t \<and> now rt - 3 * dayMs < t))"
proof -
  have p1: "earthquakeData (handleOne rt (Earthquake d) s)
     = take 50 (d # filter (inWindow rt) (earthquakeData s))"
    by (rule handleOne_quake)
  have p2: "length (earthquakeData (handleOne rt (Earthquake d) s)) \<le> 50"
    unfolding handleOne_quake by simp
  have p3: "hd (earthquakeData (onmessage rt (Some (Earthquake d)) s)) = d"
    unfolding onmessage_quake by simp
  have p4: "\<forall>x \<in> set (tl (earthquakeData (handleOne rt (Earthquake d) s)))
           \<union> set (tl (earthquakeData (onmessage rt (Some (Earthquake d)) s))).
         x \<in> set (earthquakeData s)
         \<and> (\<exists>t. parseDate rt (eq_time x) = Some t \<and> twoDaysAgo rt \<le> t)"
  proof
    fix x
    assume "x \<in> set (tl (earthquakeData (handleOne rt (Earthquake d) s)))
           \<union> set (tl (earthquakeData (onmessage rt (Some (Earthquake d)) s)))"
    then have "x \<in> set (take 49 (filter (inWindow rt) (earthquakeData s)))
        \<or> x \<in> set (take (length (earthquakeData s)) (filter (inWindow rt) (earthquakeData s)))"
      unfolding tl_handleOne_quake onmessage_quake by simp
    then show "x \<in> set (earthquakeData s)
         \<and> (\<exists>t. parseDate rt (eq_time x) = Some t \<and> twoDaysAgo rt \<le> t)"
      using kept_in_window by blast
  qed
  have p5: "(\<forall>t. localTime rt t = t + tz) \<and> (\<forall>l. utc rt l = l - tz) \<longrightarrow>
        now rt - 3 * dayMs < twoDaysAgo rt \<and> twoDaysAgo rt \<le> now rt - 2 * dayMs
        \<and> (\<forall>x \<in> set (tl (earthquakeData (handleOne rt (Earthquake d) s)))
               \<union> set (tl (earthquakeData (onmessage rt (Some (Earthquake d)) s))).
              \<exists>t. parseDate rt (eq_time x) = Some t \<and> now rt - 3 * dayMs < t)"
  proof (intro impI, elim conjE)
    assume z: "\<forall>t. localTime rt t = t + tz" "\<forall>l. utc rt l = l - tz"
    have b: "now rt - 3 * dayMs < twoDaysAgo rt" "twoDaysAgo rt \<le> now rt - 2 * dayMs"
      using twoDaysAgo_bounds [OF z] by simp_all
    have "\<forall>x \<in> set (tl (earthquakeData (handleOne rt (Earthquake d) s)))
               \<union> set (tl (earthquakeData (onmessage rt (Some (Earthquake d)) s))).
              \<exists>t. parseDate rt (eq_time x) = Some t \<and> now rt - 3 * dayMs < t"
    proof
      fix x
      assume "x \<in> set (tl (earthquakeData (handleOne rt (Earthquake d) s)))
               \<union> set (tl (earthquakeData (onmessage rt (Some (Earthquake d)) s)))"
      then obtain t where "parseDate rt (eq_time x) = Some t" "twoDaysAgo rt \<le> t"
        using p4 by blast
      then show "\<exists>t. parseDate rt (eq_time x) = Some t \<and> now rt - 3 * dayMs < t"
        using b(1) by auto
    qed
    then show "now rt - 3 * dayMs < twoDaysAgo rt \<and> twoDaysAgo rt \<le> now rt - 2 * dayMs
        \<and> (\<forall>x \<in> set (tl (earthquakeData (handleOne rt (Earthquake d) s)))
               \<union> set (tl (earthquakeData (onmessage rt (Some (Earthquake d)) s))).
              \<exists>t. parseDate rt (eq_time x) = Some t \<and> now rt - 3 * dayMs < t)"
      using b by blast
  qed
  show ?thesis by (intro conjI p1 p2 p3 p4 p5)
qed

theorem quake_window_witness:
  "earthquakeData (handleOne exampleRuntime (Earthquake (quakeAt ''1970/01/03 12:00:00''))
       (emptyStore\<lparr>earthquakeData := [quakeAt ''1970/01/01 00:00:00'', quakeAt ''1969/12/31 23:59:59'']\<rparr>))
     = [quakeAt ''1970/01/03 12:00:00'', quakeAt ''1970/01/01 00:00:00'']
   \<and> twoDaysAgo exampleRuntime = 0
   \<and> now exampleRuntime - 3 * dayMs < twoDaysAgo exampleRuntime
   \<and> twoDaysAgo exampleRuntime \<le> now exampleRuntime - 2 * dayMs"
proof -
  have z: "(\<forall>t. localTime exampleRuntime t = t + 0) \<and> (\<forall>l. utc exampleRuntime l = l - 0)"
    by (simp add: exampleRuntime_def)
  have t: "twoDaysAgo exampleRuntime = 0"
    by (simp add: twoDaysAgo_def exampleRuntime_def dayMs_def Let_def)
  have w: "inWindow exampleRuntime (quakeAt ''1970/01/01 00:00:00'')"
      "\<not> inWindow exampleRuntime (quakeAt ''1969/12/31 23:59:59'')"
    unfolding inWindow_def t by (simp_all add: exampleRuntime_def quakeAt_def)
  have e: "earthquakeData (handleOne exampleRuntime (Earthquake (quakeAt ''1970/01/03 12:00:00''))
       (emptyStore\<lparr>earthquakeData := [quakeAt ''1970/01/01 00:00:00'', quakeAt ''1969/12/31 23:59:59'']\<rparr>))
     = [quakeAt ''1970/01/03 12:00:00'', quakeAt ''1970/01/01 00:00:00'']"
    using quake_window [of exampleRuntime "quakeAt ''1970/01/03 12:00:00''"
      "emptyStore\<lparr>earthquakeData := [quakeAt ''1970/01/01 00:00:00'', quakeAt ''1969/12/31 23:59:59'']\<rparr>"]
      w by simp
  have b: "now exampleRuntime - 3 * dayMs < twoDaysAgo exampleRuntime"
      "twoDaysAgo exampleRuntime \<le> now exampleRuntime - 2 * dayMs"
    using quake_window [of exampleRuntime "quakeAt ''1970/01/03 12:00:00''"
      "emptyStore\<lparr>earthquakeData := [quakeAt ''1970/01/01 00:00:00'', quakeAt ''1969/12/31 23:59:59'']\<rparr>" 0] z
    by blast+
  show ?thesis using e t b by blast
qed

text \<open>
  Claim C5 as stated fails, here in UTC: at noon of the third day an event of the first
  midnight is two and a half days old and is still in the list after the next insert.
\<close>

theorem quake_window_counterexample:
  "earthquakeData (handleOne exampleRuntime (Earthquake (quakeAt ''1970/01/03 12:00:00''))
       (emptyStore\<lparr>earthquakeData := [quakeAt ''1970/01/01 00:00:00'']\<rparr>))
     = [quakeAt ''1970/01/03 12:00:00'', quakeAt ''1970/01/01 00:00:00'']
   \<and> parseDate exampleRuntime (eq_time (quakeAt ''1970/01/01 00:00:00'')) = Some 0
   \<and> now exampleRuntime - 0 > 2 * dayMs"
proof -
  have t: "twoDaysAgo exampleRuntime = 0"
    by (simp add: twoDaysAgo_def exampleRuntime_def dayMs_def Let_def)
  have w: "inWindow exampleRuntime (quakeAt ''1970/01/01 00:00:00'')"
    unfolding inWindow_def t by (simp add: exampleRuntime_def quakeAt_def)
  have "parseDate exampleRuntime (eq_time (quakeAt ''1970/01/01 00:00:00'')) = Some 0"
    by (simp add: exampleRuntime_def quakeAt_def)
  moreover have "now exampleRuntime - 0 > 2 * dayMs"
    by (simp add: exampleRuntime_def dayMs_def)
  ultimately show ?thesis using w by simp
qed

lemma handleOne_tsunami:
  "earthquakeData (handleOne rt (Tsunami tsu) s)
     = (if cancelled tsu then earthquakeData s
        else take 50 (synthetic rt tsu # filter (inWindow rt) (earthquakeData s)))"
  "tsunamiData (handleOne rt (Tsunami tsu) s) = Some tsu"
  by (simp_all add: Let_def)

lemma synthetic_fields:
  "syntheticFromTsunami (synthetic rt tsu)"
  "hypo_magnitude (synthetic rt tsu) = 3"
  "hypo_depth (synthetic rt tsu) = 10"
  "freeFormComment (synthetic rt tsu) = syntheticComment"
  "hypo_name (synthetic rt tsu) = firstName (areas tsu)"
  "eq_time (synthetic rt tsu) = toISOString rt (now rt)"
  by (simp_all add: synthetic_def Let_def)

text \<open>
  Claim C2, as amended. For every non-cancelled tsunami message (code 552) taken in by
  \<^verbatim>\<open>ingestP2pquakePayload\<close>, with or without a quake message, exactly one placeholder
  quake record is put in front of the list. It is flagged as synthetic, its magnitude is
  3 and its depth 10, its comment is the fixed note that it derives from tsunami data,
  and its location is the name of the first affected area when there is a first area and
  its name is not empty, and the fixed name for coastal waters otherwise. A cancelled
  tsunami message leaves the list as it is. Either message becomes the current tsunami
  record. The handler of the live socket only stores the tsunami record and leaves the
  list as it is.
\<close>

theorem tsunami_synthesis:
  "(\<not> cancelled tsu \<longrightarrow>
      earthquakeData (handleOne rt (Tsunami tsu) s)
        = take 50 (synthetic rt tsu # filter (inWindow rt) (earthquakeData s)))
   \<and> (cancelled tsu \<longrightarrow> earthquakeData (handleOne rt (Tsunami tsu) s) = earthquakeData s)
   \<and> tsunamiData (handleOne rt (Tsunami tsu) s) = Some tsu
   \<and> syntheticFromTsunami (synthetic rt tsu)
   \<and> hypo_magnitude (synthetic rt tsu) = 3
   \<and> hypo_depth (synthetic rt tsu) = 10
   \<and> freeFormComment (synthetic rt tsu) = syntheticComment
   \<and> (\<forall>a rest. areas tsu = a # rest \<and> area_name a \<noteq> [] \<longrightarrow>
         hypo_name (synthetic rt tsu) = area_name a)
   \<and> (areas tsu = [] \<or> area_name (hd (areas tsu)) = [] \<longrightarrow>
         hypo_name (synthetic rt tsu) = coastalWaters)
   \<and> earthquakeData (onmessage rt (Some (Tsunami tsu)) s) = earthquakeData s"
proof -
  have n1: "\<forall>a rest. areas tsu = a # rest \<and> area_name a \<noteq> [] \<longrightarrow>
         hypo_name (synthetic rt tsu) = area_name a"
    by (simp add: synthetic_fields firstName_def)
  have n2: "areas tsu = [] \<or> area_name (hd (areas tsu)) = [] \<longrightarrow>
         hypo_name (synthetic rt tsu) = coastalWaters"
    by (cases "areas tsu") (simp_all add: synthetic_fields firstName_def)
  show ?thesis
    using n1 n2 by (simp add: handleOne_tsunami synthetic_fields del: handleOne.simps)
qed

theorem tsunami_synthesis_witness:
  "earthquakeData (handleOne exampleRuntime
       (Tsunami (exampleTsunami False [\<lparr>area_name = ''Hokkaido'', grade = ''Watch''\<rparr>])) emptyStore)
     = [\<lparr>eq_time = ''1970-01-03T12:00:00.000Z'', maxScale = 0, domesticTsunami = ''Watch'',
         hypo_name = ''Hokkaido'', hypo_latitude = 35, hypo_longitude = 139, hypo_depth = 10,
         hypo_magnitude = 3, freeFormComment = syntheticComment, points = [],
         syntheticFromTsunami = True\<rparr>]
   \<and> earthquakeData (handleOne exampleRuntime
       (Tsunami (exampleTsunami True [\<lparr>area_name = ''Hokkaido'', grade = ''Watch''\<rparr>])) emptyStore)
     = []"
proof -
  let ?as = "[\<lparr>area_name = ''Hokkaido'', grade = ''Watch''\<rparr>]"
  have c: "\<not> cancelled (exampleTsunami False ?as)" "cancelled (exampleTsunami True ?as)"
    by (simp_all add: exampleTsunami_def)
  have v: "synthetic exampleRuntime (exampleTsunami False ?as)
     = \<lparr>eq_time = ''1970-01-03T12:00:00.000Z'', maxScale = 0, domesticTsunami = ''Watch'',
         hypo_name = ''Hokkaido'', hypo_latitude = 35, hypo_longitude = 139, hypo_depth = 10,
         hypo_magnitude = 3, freeFormComment = syntheticComment, points = [],
         syntheticFromTsunami = True\<rparr>"
    by (simp add: synthetic_def exampleTsunami_def exampleRuntime_def firstName_def Let_def)
  have e: "earthquakeData emptyStore = []" by (simp add: emptyStore_def)
  from tsunami_synthesis [of "exampleTsunami False ?as" exampleRuntime emptyStore]
    tsunami_synthesis [of "exampleTsunami True ?as" exampleRuntime emptyStore] c
  show ?thesis unfolding v e by simp
qed

text \<open>
  Claim C2 as stated fails for a first area whose name is empty: the location is the
  name for coastal waters, not the first area's name. And a non-cancelled tsunami message
  that arrives on the live socket synthesizes nothing.
\<close>

theorem tsunami_synthesis_counterexample:
  "hypo_name (hd (earthquakeData (handleOne exampleRuntime
       (Tsunami (exampleTsunami False [\<lparr>area_name = [], grade = ''Watch''\<rparr>])) emptyStore)))
     = coastalWaters
   \<and> area_name (hd (areas (exampleTsunami False [\<lparr>area_name = [], grade = ''Watch''\<rparr>]))) = []
   \<and> coastalWaters \<noteq> []
   \<and> \<not> cancelled (exampleTsunami False [\<lparr>area_name = ''Hokkaido'', grade = ''Watch''\<rparr>])
   \<and> earthquakeData (onmessage exampleRuntime
         (Some (Tsunami (exampleTsunami False [\<lparr>area_name = ''Hokkaido'', grade = ''Watch''\<rparr>])))
         emptyStore) = []"
  by (simp add: handleOne_tsunami synthetic_fields firstName_def exampleTsunami_def emptyStore_def
        coastalWaters_def del: handleOne.simps)

text \<open>
  Claim C6. The tsunami warning level passed to the sidebar is \<open>major_warning\<close> if any
  area of the current tsunami record has grade MajorWarning, else \<open>warning\<close> if any has
  grade Warning, else \<open>watch\<close> if any has grade Watch, else \<open>none\<close>; a cancelled record
  resolves to \<open>none\<close>, also when it replaces an earlier record in the store.
\<close>

theorem tsunami_level:
  "sidebarTsunamiWarning None = none
   \<and> (cancelled td \<longrightarrow> sidebarTsunamiWarning (Some td) = none)
   \<and> (\<not> cancelled td \<longrightarrow>
        sidebarTsunamiWarning (Some td)
          = (if \<exists>a \<in> set (areas td). grade a = ''MajorWarning'' then major_warning
             else if \<exists>a \<in> set (areas td). grade a = ''Warning'' then warning
             else if \<exists>a \<in> set (areas td). grade a = ''Watch'' then watch
             else none))
   \<and> (cancelled td \<longrightarrow>
        sidebarTsunamiWarning (tsunamiData (handleOne rt (Tsunami td) s)) = none
        \<and> sidebarTsunamiWarning (tsunamiData (onmessage rt (Some (Tsunami td)) s)) = none)"
  by (simp add: sidebarTsunamiWarning_def handleOne_tsunami del: handleOne.simps)

theorem tsunami_level_witness:
  "sidebarTsunamiWarning (Some (exampleTsunami False
       [\<lparr>area_name = ''Iwate'', grade = ''Watch''\<rparr>, \<lparr>area_name = ''Miyagi'', grade = ''MajorWarning''\<rparr>,
        \<lparr>area_name = ''Fukushima'', grade = ''Warning''\<rparr>])) = major_warning
   \<and> sidebarTsunamiWarning (Some (exampleTsunami False
       [\<lparr>area_name = ''Iwate'', grade = ''Watch''\<rparr>, \<lparr>area_name = ''Fukushima'', grade = ''Warning''\<rparr>])) = warning
   \<and> sidebarTsunamiWarning (Some (exampleTsunami False [\<lparr>area_name = ''Iwate'', grade = ''Watch''\<rparr>])) = watch
   \<and> sidebarTsunamiWarning (Some (exampleTsunami False [\<lparr>area_name = ''Iwate'', grade = ''Unknown''\<rparr>])) = none
   \<and> sidebarTsunamiWarning (tsunamiData
        (handleOne exampleRuntime (Tsunami (exampleTsunami True [\<lparr>area_name = ''Miyagi'', grade = ''MajorWarning''\<rparr>]))
          (handleOne exampleRuntime (Tsunami (exampleTsunami False [\<lparr>area_name = ''Miyagi'', grade = ''MajorWarning''\<rparr>]))
             emptyStore))) = none"
proof -
  have c: "\<And>as. \<not> cancelled (exampleTsunami False as)" "\<And>as. cancelled (exampleTsunami True as)"
    "\<And>b as. areas (exampleTsunami b as) = as"
    by (simp_all add: exampleTsunami_def)
  from tsunami_level [of "exampleTsunami False
       [\<lparr>area_name = ''Iwate'', grade = ''Watch''\<rparr>, \<lparr>area_name = ''Miyagi'', grade = ''MajorWarning''\<rparr>,
        \<lparr>area_name = ''Fukushima'', grade = ''Warning''\<rparr>]"]
    tsunami_level [of "exampleTsunami False
       [\<lparr>area_name = ''Iwate'', grade = ''Watch''\<rparr>, \<lparr>area_name = ''Fukushima'', grade = ''Warning''\<rparr>]"]
    tsunami_level [of "exampleTsunami False [\<lparr>area_name = ''Iwate'', grade = ''Watch''\<rparr>]"]
    tsunami_level [of "exampleTsunami False [\<lparr>area_name = ''Iwate'', grade = ''Unknown''\<rparr>]"]
    tsunami_level [of "exampleTsunami True [\<lparr>area_name = ''Miyagi'', grade = ''MajorWarning''\<rparr>]" exampleRuntime
      "handleOne exampleRuntime (Tsunami (exampleTsunami False [\<lparr>area_name = ''Miyagi'', grade = ''MajorWarning''\<rparr>])) emptyStore"]
  show ?thesis by (simp add: c del: handleOne.simps)
qed

text \<open>
  The value \<^verbatim>\<open>transformData\<close> computes knows no MajorWarning; it is the sidebar's value
  whenever no area has that grade, and the prop written after the spread replaces it.
\<close>

lemma transformData_agrees:
  "\<not> (\<exists>a \<in> set (areas td). grade a = ''MajorWarning'') \<Longrightarrow>
   transformDataTsunamiWarning (Some td) = sidebarTsunamiWarning (Some td)"
  by (simp add: transformDataTsunamiWarning_def sidebarTsunamiWarning_def)

section \<open>Properties of the leader lock\<close>

lemma acquire_ok:
  "fst (acquireWolfxLock t fresh idRef item)
     = (item = None \<or> item = Some Unparsable
        \<or> (\<exists>p. item = Some (LockJson p)
              \<and> (t - ts p > 10000 \<or> lock_id p = (if truthyId idRef then the idRef else fresh))))"
  by (auto simp: acquireWolfxLock_def Let_def split: option.splits lock_item.splits)

lemma acquire_item:
  "snd (snd (acquireWolfxLock t fresh idRef item))
     = (if item = None \<or> (\<exists>p. item = Some (LockJson p) \<and> t - ts p > 10000)
        then Some (LockJson \<lparr>lock_id = (if truthyId idRef then the idRef else fresh), ts = t\<rparr>)
        else item)"
  by (auto simp: acquireWolfxLock_def Let_def split: option.splits lock_item.splits)

lemma acquire_ref:
  "fst (snd (acquireWolfxLock t fresh idRef item))
     = Some (if truthyId idRef then the idRef else fresh)"
  by (auto simp: acquireWolfxLock_def Let_def split: option.splits lock_item.splits)

text \<open>
  Claim C3, as amended. \<^verbatim>\<open>acquireWolfxLock\<close> succeeds exactly when there is no shared
  record, the stored text cannot be parsed, the stored heartbeat is more than 10 seconds
  old, or the stored owner id is the caller's id. It writes the caller's id and the
  current time when there is no record or the record is stale, and leaves the storage as
  it is otherwise, also when it succeeds because the caller is the owner. So, as long as
  the record of a first acquirer is not rewritten, a second acquirer with another id fails
  while the heartbeat is at most 10 seconds old and succeeds, taking the record over, once
  it is older.
\<close>

theorem leader_lock:
  "fst (acquireWolfxLock t fresh idRef item)
     = (item = None \<or> item = Some Unparsable
        \<or> (\<exists>p. item = Some (LockJson p)
              \<and> (t - ts p > 10000 \<or> lock_id p = (if truthyId idRef then the idRef else fresh))))
   \<and> snd (snd (acquireWolfxLock t fresh idRef item))
     = (if item = None \<or> (\<exists>p. item = Some (LockJson p) \<and> t - ts p > 10000)
        then Some (LockJson \<lparr>lock_id = (if truthyId idRef then the idRef else fresh), ts = t\<rparr>)
        else item)
   \<and> (a \<noteq> [] \<and> b \<noteq> [] \<and> a \<noteq> b \<longrightarrow>
        acquireWolfxLock t0 fa (Some a) None
          = (True, Some a, Some (LockJson \<lparr>lock_id = a, ts = t0\<rparr>))
        \<and> (t1 - t0 \<le> 10000 \<longrightarrow>
             acquireWolfxLock t1 fb (Some b) (Some (LockJson \<lparr>lock_id = a, ts = t0\<rparr>))
               = (False, Some b, Some (LockJson \<lparr>lock_id = a, ts = t0\<rparr>)))
        \<and> (t1 - t0 > 10000 \<longrightarrow>
             acquireWolfxLock t1 fb (Some b) (Some (LockJson \<lparr>lock_id = a, ts = t0\<rparr>))
               = (True, Some b, Some (LockJson \<lparr>lock_id = b, ts = t1\<rparr>))))"
proof -
  have two: "a \<noteq> [] \<and> b \<noteq> [] \<and> a \<noteq> b \<longrightarrow>
        acquireWolfxLock t0 fa (Some a) None
          = (True, Some a, Some (LockJson \<lparr>lock_id = a, ts = t0\<rparr>))
        \<and> (t1 - t0 \<le> 10000 \<longrightarrow>
             acquireWolfxLock t1 fb (Some b) (Some (LockJson \<lparr>lock_id = a, ts = t0\<rparr>))
               = (False, Some b, Some (LockJson \<lparr>lock_id = a, ts = t0\<rparr>)))
        \<and> (t1 - t0 > 10000 \<longrightarrow>
             acquireWolfxLock t1 fb (Some b) (Some (LockJson \<lparr>lock_id = a, ts = t0\<rparr>))
               = (True, Some b, Some (LockJson \<lparr>lock_id = b, ts = t1\<rparr>)))"
    by (simp add: acquireWolfxLock_def truthyId_def Let_def)
  show ?thesis
    by (intro conjI acquire_ok acquire_item two)
qed

theorem leader_lock_witness:
  "acquireWolfxLock 1000 ''r1'' None None
     = (True, Some ''r1'', Some (LockJson \<lparr>lock_id = ''r1'', ts = 1000\<rparr>))
   \<and> acquireWolfxLock 9000 ''r2'' (Some ''tabB'') (Some (LockJson \<lparr>lock_id = ''tabA'', ts = 1000\<rparr>))
     = (False, Some ''tabB'', Some (LockJson \<lparr>lock_id = ''tabA'', ts = 1000\<rparr>))
   \<and> acquireWolfxLock 11001 ''r2'' (Some ''tabB'') (Some (LockJson \<lparr>lock_id = ''tabA'', ts = 1000\<rparr>))
     = (True, Some ''tabB'', Some (LockJson \<lparr>lock_id = ''tabB'', ts = 11001\<rparr>))"
proof -
  have h: "''tabA'' \<noteq> [] \<and> ''tabB'' \<noteq> [] \<and> ''tabA'' \<noteq> ''tabB''" by simp
  have a: "acquireWolfxLock 1000 ''r1'' None None
     = (True, Some ''r1'', Some (LockJson \<lparr>lock_id = ''r1'', ts = 1000\<rparr>))"
    by (simp add: acquireWolfxLock_def truthyId_def Let_def)
  from leader_lock [where a = "''tabA''" and b = "''tabB''" and ?t0.0 = 1000 and fa = "''r1''" and ?t1.0 = 9000 and fb = "''r2''"]
    leader_lock [where a = "''tabA''" and b = "''tabB''" and ?t0.0 = 1000 and fa = "''r1''" and ?t1.0 = 11001 and fb = "''r2''"] h a
  show ?thesis by simp
qed

text \<open>
  Claim C3 as stated fails where the owner acquires again within the threshold: the call
  succeeds and the stored heartbeat stays what it was.
\<close>

theorem leader_lock_counterexample:
  "acquireWolfxLock 5000 ''r1'' (Some ''tabA'') (Some (LockJson \<lparr>lock_id = ''tabA'', ts = 0\<rparr>))
     = (True, Some ''tabA'', Some (LockJson \<lparr>lock_id = ''tabA'', ts = 0\<rparr>))
   \<and> LockJson \<lparr>lock_id = ''tabA'', ts = 0\<rparr> \<noteq> LockJson \<lparr>lock_id = ''tabA'', ts = 5000\<rparr>"
  by (simp add: acquireWolfxLock_def truthyId_def Let_def)

text \<open>
  \<^verbatim>\<open>refreshWolfxLock\<close> does not look at the stored owner, where the \<^verbatim>\<open>beforeunload\<close>
  handler does: a tab whose acquire failed still has an id, and its next refresh puts that
  id into the record.
\<close>

lemma refresh_overwrites_other_owner:
  "refreshWolfxLock 3000 (Some ''tabB'') (Some (LockJson \<lparr>lock_id = ''tabA'', ts = 0\<rparr>))
     = Some (LockJson \<lparr>lock_id = ''tabB'', ts = 3000\<rparr>)"
  "beforeUnload (Some ''tabB'') (Some (LockJson \<lparr>lock_id = ''tabA'', ts = 0\<rparr>))
     = Some (LockJson \<lparr>lock_id = ''tabA'', ts = 0\<rparr>)"
  by (simp_all add: refreshWolfxLock_def beforeUnload_def truthyId_def)

section \<open>Properties of the scraped table feed\<close>

lemma in_dropWhile: "x \<in> set xs \<Longrightarrow> \<not> P x \<Longrightarrow> x \<in> set (dropWhile P xs)"
  by (induction xs) auto

lemma in_trim_iff: "\<not> isSpace c \<Longrightarrow> c \<in> set (trim s) \<longleftrightarrow> c \<in> set s"
proof
  assume "c \<in> set (trim s)"
  then have "c \<in> set (dropWhile isSpace (rev (dropWhile isSpace s)))"
    by (simp add: trim_def)
  then have "c \<in> set (rev (dropWhile isSpace s))" by (rule set_dropWhileD)
  then have "c \<in> set (dropWhile isSpace s)" by simp
  then show "c \<in> set s" by (rule set_dropWhileD)
next
  assume ns: "\<not> isSpace c" and "c \<in> set s"
  then have "c \<in> set (rev (dropWhile isSpace s))" by (simp add: in_dropWhile)
  then have "c \<in> set (dropWhile isSpace (rev (dropWhile isSpace s)))"
    using ns by (rule in_dropWhile)
  then show "c \<in> set (trim s)" by (simp add: trim_def)
qed

lemma parseLat_sign:
  "parseLat js text =
     (case parseFloat js (trim (filter (\<lambda>c. c \<notin> {CHR ''N'', CHR ''S''}) (trim text))) of
        None \<Rightarrow> None
      | Some v \<Rightarrow> Some (if CHR ''S'' \<in> set text then - v else v))"
proof -
  have "CHR ''S'' \<in> set (trim text) \<longleftrightarrow> CHR ''S'' \<in> set text"
    by (rule in_trim_iff) (simp add: isSpace_def)
  then show ?thesis by (simp add: parseLat_def Let_def split: option.splits)
qed

lemma parseLng_sign:
  "parseLng js text =
     (case parseFloat js (trim (filter (\<lambda>c. c \<notin> {CHR ''E'', CHR ''W''}) (trim text))) of
        None \<Rightarrow> None
      | Some v \<Rightarrow> Some (if CHR ''W'' \<in> set text then - v else v))"
proof -
  have "CHR ''W'' \<in> set (trim text) \<longleftrightarrow> CHR ''W'' \<in> set text"
    by (rule in_trim_iff) (simp add: isSpace_def)
  then show ?thesis by (simp add: parseLng_def Let_def split: option.splits)
qed

lemma eachRow_dropped:
  "parseKstToIsoUtc js (get tds 1) = None \<Longrightarrow> eachRow js tds events = events"
  by (simp add: eachRow_def Let_def)

lemma eachRow_pushed:
  "tds \<noteq> [] \<Longrightarrow> parseKstToIsoUtc js (get tds 1) = Some isoStr \<Longrightarrow> isoStr \<noteq> [] \<Longrightarrow>
   eachRow js tds events = events @
     [\<lparr>time = isoStr,
       location = (if get tds 7 \<noteq> [] then get tds 7 else republicOfKorea),
       depth = (case parseFloat js (get tds 3) of Some v \<Rightarrow> v | None \<Rightarrow> 0),
       magnitude = (case parseFloat js (get tds 2) of Some v \<Rightarrow> v | None \<Rightarrow> 0),
       intensity = - 1,
       latitude = parseLat js (get tds 5),
       longitude = parseLng js (get tds 6),
       intensityText = (if get tds 4 \<noteq> [] then Some (get tds 4) else None)\<rparr>]"
  by (simp add: eachRow_def Let_def)

lemma eachRow_cases:
  "eachRow js tds events = events
   \<or> (\<exists>e. eachRow js tds events = events @ [e] \<and> intensity e = - 1)"
  by (simp add: eachRow_def Let_def split: option.splits)

lemma foldl_eachRow_intensity:
  "\<forall>e \<in> set events. intensity e = - 1 \<Longrightarrow>
   \<forall>e \<in> set (foldl (\<lambda>events tds. eachRow js tds events) events rows). intensity e = - 1"
proof (induction rows arbitrary: events)
  case Nil
  then show ?case by simp
next
  case (Cons tds rows)
  have "\<forall>e \<in> set (eachRow js tds events). intensity e = - 1"
    using eachRow_cases [of js tds events] Cons.prems by auto
  then show ?case using Cons.IH by simp
qed

lemma foldl_eachRow_filter:
  "foldl (\<lambda>events tds. eachRow js tds events) events
     (filter (\<lambda>tds. parseKstToIsoUtc js (get tds 1) \<noteq> None) rows)
   = foldl (\<lambda>events tds. eachRow js tds events) events rows"
  by (induction rows arbitrary: events) (simp_all add: eachRow_dropped)


text \<open>
  Claim C9. For every row of the scraped table: a row whose timestamp does not parse
  leaves the events as they are, so the events of a table are those of its rows with a
  parsable timestamp; the parsed latitude is negated exactly when the text contains the
  letter S and the parsed longitude exactly when it contains W; the fields of an event
  come from the cells 1 to 7 of its row (time, magnitude, depth, intensity text, latitude,
  longitude, location); and every event has the intensity \<open>- 1\<close>, the sentinel for no
  numeric intensity.
\<close>

theorem scraped_rows:
  "(parseKstToIsoUtc js (get tds 1) = None \<longrightarrow> eachRow js tds events = events)
   \<and> tableEvents js (filter (\<lambda>tds. parseKstToIsoUtc js (get tds 1) \<noteq> None) rows)
       = tableEvents js rows
   \<and> parseLat js text =
       (case parseFloat js (trim (filter (\<lambda>c. c \<notin> {CHR ''N'', CHR ''S''}) (trim text))) of
          None \<Rightarrow> None
        | Some v \<Rightarrow> Some (if CHR ''S'' \<in> set text then - v else v))
   \<and> parseLng js text =
       (case parseFloat js (trim (filter (\<lambda>c. c \<notin> {CHR ''E'', CHR ''W''}) (trim text))) of
          None \<Rightarrow> None
        | Some v \<Rightarrow> Some (if CHR ''W'' \<in> set text then - v else v))
   \<and> (tds \<noteq> [] \<and> parseKstToIsoUtc js (get tds 1) = Some isoStr \<and> isoStr \<noteq> [] \<longrightarrow>
        eachRow js tds events = events @
          [\<lparr>time = isoStr,
            location = (if get tds 7 \<noteq> [] then get tds 7 else republicOfKorea),
            depth = (case parseFloat js (get tds 3) of Some v \<Rightarrow> v | None \<Rightarrow> 0),
            magnitude = (case parseFloat js (get tds 2) of Some v \<Rightarrow> v | None \<Rightarrow> 0),
            intensity = - 1,
            latitude = parseLat js (get tds 5),
            longitude = parseLng js (get tds 6),
            intensityText = (if get tds 4 \<noteq> [] then Some (get tds 4) else None)\<rparr>])
   \<and> (\<forall>e \<in> set (tableEvents js rows). intensity e = - 1)"
proof -
  have p1: "parseKstToIsoUtc js (get tds 1) = None \<longrightarrow> eachRow js tds events = events"
    by (simp add: eachRow_dropped)
  have p2: "tableEvents js (filter (\<lambda>tds. parseKstToIsoUtc js (get tds 1) \<noteq> None) rows)
       = tableEvents js rows"
    unfolding tableEvents_def by (rule foldl_eachRow_filter)
  have p5: "tds \<noteq> [] \<and> parseKstToIsoUtc js (get tds 1) = Some isoStr \<and> isoStr \<noteq> [] \<longrightarrow>
        eachRow js tds events = events @
          [\<lparr>time = isoStr,
            location = (if get tds 7 \<noteq> [] then get tds 7 else republicOfKorea),
            depth = (case parseFloat js (get tds 3) of Some v \<Rightarrow> v | None \<Rightarrow> 0),
            magnitude = (case parseFloat js (get tds 2) of Some v \<Rightarrow> v | None \<Rightarrow> 0),
            intensity = - 1,
            latitude = parseLat js (get tds 5),
            longitude = parseLng js (get tds 6),
            intensityText = (if get tds 4 \<noteq> [] then Some (get tds 4) else None)\<rparr>]"
    using eachRow_pushed [of tds js isoStr events] by blast
  have p6: "\<forall>e \<in> set (tableEvents js rows). intensity e = - 1"
    unfolding tableEvents_def by (rule foldl_eachRow_intensity) simp
  show ?thesis
    by (intro conjI p1 p2 parseLat_sign parseLng_sign p5 p6)
qed

lemma trim_examples:
  "trim '' 2025/01/02  03:04:05 '' = ''2025/01/02  03:04:05''"
  "trim ''36.12 S'' = ''36.12 S''" "trim ''36.12 '' = ''36.12''"
  "trim ''127.45 E'' = ''127.45 E''" "trim ''127.45 '' = ''127.45''"
  "trim ''2.3'' = ''2.3''" "trim ''12'' = ''12''" "trim ''I'' = ''I''"
  "trim ''Gyeongju'' = ''Gyeongju''" "trim ''2025-01-02 03:04'' = ''2025-01-02 03:04''"
  "trim ''2025/01/02  03:04:05'' = ''2025/01/02  03:04:05''" "trim ''1'' = ''1''" "trim ''2'' = ''2''"
  "trim ''36.12 N'' = ''36.12 N''"
  by (simp_all add: trim_def isSpace_def)

lemma matchKst_example:
  "matchKst ''2025/01/02  03:04:05'' = Some (''2025'', ''01'', ''02'', ''03'', ''04'', ''05'')"
  by (simp add: matchKst_def takeDigits_def expectChar_def someSpaces_def isDigit_def isSpace_def)

lemma matchKst_broken: "matchKst ''2025-01-02 03:04'' = None"
  by (simp add: matchKst_def takeDigits_def expectChar_def someSpaces_def isDigit_def isSpace_def)


theorem scraped_rows_witness:
  "tableEvents exampleBuiltins [exampleRow, brokenRow]
     = [\<lparr>time = ''2025-01-01T18:04:05.000Z'', location = ''Gyeongju'', depth = 12,
         magnitude = 23 / 10, intensity = - 1, latitude = Some (- (903 / 25)),
         longitude = Some (2549 / 20), intensityText = Some ''I''\<rparr>]
   \<and> parseLat exampleBuiltins ''36.12 S'' = Some (- (903 / 25))
   \<and> parseLat exampleBuiltins ''36.12 N'' = Some (903 / 25)"
proof -
  let ?js = exampleBuiltins
  let ?isoStr = "''2025-01-01T18:04:05.000Z''"
  have g: "get exampleRow 1 = ''2025/01/02  03:04:05''" "get exampleRow 2 = ''2.3''"
      "get exampleRow 3 = ''12''" "get exampleRow 4 = ''I''" "get exampleRow 5 = ''36.12 S''"
      "get exampleRow 6 = ''127.45 E''" "get exampleRow 7 = ''Gyeongju''"
      "get brokenRow 1 = ''2025-01-02 03:04''"
    by (simp_all add: get_def exampleRow_def brokenRow_def trim_examples)
  have k: "parseKstToIsoUtc ?js (get exampleRow 1) = Some ?isoStr"
    unfolding parseKstToIsoUtc_def g trim_examples matchKst_example
    by (simp add: exampleBuiltins_def)
  have kb: "parseKstToIsoUtc ?js (get brokenRow 1) = None"
    unfolding parseKstToIsoUtc_def g trim_examples matchKst_broken by simp
  have "exampleRow \<noteq> []" by (simp add: exampleRow_def)
  then have ne: "exampleRow \<noteq> [] \<and> parseKstToIsoUtc ?js (get exampleRow 1) = Some ?isoStr \<and> ?isoStr \<noteq> []"
    using k by blast
  have f: "parseFloat ?js (trim (filter (\<lambda>c. c \<notin> {CHR ''N'', CHR ''S''}) (trim ''36.12 S''))) = Some (903 / 25)"
      "parseFloat ?js (trim (filter (\<lambda>c. c \<notin> {CHR ''N'', CHR ''S''}) (trim ''36.12 N''))) = Some (903 / 25)"
      "parseFloat ?js (trim (filter (\<lambda>c. c \<notin> {CHR ''E'', CHR ''W''}) (trim ''127.45 E''))) = Some (2549 / 20)"
      "parseFloat ?js ''12'' = Some 12" "parseFloat ?js ''2.3'' = Some (23 / 10)"
    by (simp_all add: trim_examples exampleBuiltins_def)
  have lat: "parseLat ?js ''36.12 S'' = Some (- (903 / 25))"
    using scraped_rows [of ?js exampleRow "[]" "[]" "''36.12 S''" ?isoStr] f by simp
  have lat': "parseLat ?js ''36.12 N'' = Some (903 / 25)"
    using scraped_rows [of ?js exampleRow "[]" "[]" "''36.12 N''" ?isoStr] f by simp
  have lng: "parseLng ?js ''127.45 E'' = Some (2549 / 20)"
    using scraped_rows [of ?js exampleRow "[]" "[]" "''127.45 E''" ?isoStr] f by simp
  have r1: "eachRow ?js exampleRow [] =
     [\<lparr>time = ?isoStr, location = ''Gyeongju'', depth = 12,
         magnitude = 23 / 10, intensity = - 1, latitude = Some (- (903 / 25)),
         longitude = Some (2549 / 20), intensityText = Some ''I''\<rparr>]"
    using scraped_rows [of ?js exampleRow "[]" "[]" "[]" ?isoStr] ne
    unfolding g f lat lng by simp
  have r2: "\<And>events. eachRow ?js brokenRow events = events"
    using scraped_rows [of ?js brokenRow _ "[]" "[]" "[]"] kb by blast
  have "tableEvents ?js [exampleRow, brokenRow] = eachRow ?js brokenRow (eachRow ?js exampleRow [])"
    by (simp add: tableEvents_def)
  then show ?thesis using r1 r2 lat lat' by simp
qed

end
